theory Spec2Isabelle
  imports Main "HOL-Library.Sublist"
begin

section \<open>Python strings\<close>

text \<open>
  Strings are lists of characters. The library functions the program uses on them
  (\<^verbatim>\<open>startswith\<close>, \<^verbatim>\<open>endswith\<close>, \<^verbatim>\<open>in\<close>, \<^verbatim>\<open>lower\<close>, \<^verbatim>\<open>strip\<close>, \<^verbatim>\<open>str\<close>,
  \<^verbatim>\<open>int\<close>) are written out as recursive functions; case mapping covers the ASCII
  letters.
\<close>

fun startswith :: "string \<Rightarrow> string \<Rightarrow> bool" where
  "startswith s [] = True"
| "startswith [] (c # p) = False"
| "startswith (x # s) (c # p) = (x = c \<and> startswith s p)"

definition endswith :: "string \<Rightarrow> string \<Rightarrow> bool" where
  "endswith s suf = startswith (rev s) (rev suf)"

text \<open>\<^verbatim>\<open>needle in haystack\<close>: the needle occurs as a contiguous piece.\<close>

fun contains :: "string \<Rightarrow> string \<Rightarrow> bool" where
  "contains [] n = (n = [])"
| "contains (h # hs) n = (startswith (h # hs) n \<or> contains hs n)"

definition lower_char :: "char \<Rightarrow> char" where
  "lower_char c =
     (case map_of (zip ''ABCDEFGHIJKLMNOPQRSTUVWXYZ'' ''abcdefghijklmnopqrstuvwxyz'') c of
        None \<Rightarrow> c
      | Some l \<Rightarrow> l)"

definition lower :: "string \<Rightarrow> string" where
  "lower s = map lower_char s"

definition isspace :: "char \<Rightarrow> bool" where
  "isspace c = ((of_char c :: nat) \<in> {9, 10, 11, 12, 13, 28, 29, 30, 31, 32, 133, 160})"

definition strip :: "string \<Rightarrow> string" where
  "strip s = rev (dropWhile isspace (rev (dropWhile isspace s)))"

definition digit_char :: "nat \<Rightarrow> char" where
  "digit_char d = ''0123456789'' ! d"

fun str_nat :: "nat \<Rightarrow> string" where
  "str_nat n = (if n < 10 then [digit_char n] else str_nat (n div 10) @ [digit_char (n mod 10)])"

declare str_nat.simps [simp del]

definition str_int :: "int \<Rightarrow> string" where
  "str_int i = (if i < 0 then CHR ''-'' # str_nat (nat (- i)) else str_nat (nat i))"

definition isdigit :: "char \<Rightarrow> bool" where
  "isdigit c = (48 \<le> (of_char c :: nat) \<and> (of_char c :: nat) \<le> 57)"

definition digit_val :: "char \<Rightarrow> nat" where
  "digit_val c = of_char c - 48"

text \<open>
  \<^verbatim>\<open>int(s)\<close> on a string: surrounding whitespace is dropped, one sign is allowed, then
  decimal digits, with single underscores allowed between digits. \<open>None\<close> stands for
  the \<^verbatim>\<open>ValueError\<close>.
\<close>

fun int_digits :: "nat \<Rightarrow> string \<Rightarrow> nat option" where
  "int_digits acc [] = Some acc"
| "int_digits acc [c] = (if isdigit c then Some (10 * acc + digit_val c) else None)"
| "int_digits acc (c # d # cs) =
     (if c = CHR ''_''
      then (if isdigit d then int_digits (10 * acc + digit_val d) cs else None)
      else if isdigit c then int_digits (10 * acc + digit_val c) (d # cs) else None)"

definition int_unsigned :: "string \<Rightarrow> nat option" where
  "int_unsigned s =
     (case s of
        [] \<Rightarrow> None
      | c # cs \<Rightarrow> if isdigit c then int_digits (digit_val c) cs else None)"

definition py_int :: "string \<Rightarrow> int option" where
  "py_int s =
     (case strip s of
        [] \<Rightarrow> None
      | c # cs \<Rightarrow>
          if c = CHR ''-'' then map_option (\<lambda>n. - int n) (int_unsigned cs)
          else if c = CHR ''+'' then map_option int (int_unsigned cs)
          else map_option int (int_unsigned (c # cs)))"

section \<open>Exceptions\<close>

text \<open>
  \<open>Exception msg\<close> is what the program itself raises (\<^verbatim>\<open>raise Exception(msg)\<close>): its
  domain-level error. \<open>Transport_error\<close> is whatever the PowerDNS client library or the
  HTTP layer under it raises; \<open>Attribute_error\<close> and \<open>Index_error\<close> are the interpreter's.
  \<open>str_exn\<close> is \<^verbatim>\<open>str(e)\<close>.
\<close>

datatype exn =
    Transport_error string
  | Attribute_error string
  | Index_error string
  | Exception string

fun str_exn :: "exn \<Rightarrow> string" where
  "str_exn (Transport_error msg) = msg"
| "str_exn (Attribute_error msg) = msg"
| "str_exn (Index_error msg) = msg"
| "str_exn (Exception msg) = msg"

fun is_domain_error :: "exn \<Rightarrow> bool" where
  "is_domain_error (Exception msg) = True"
| "is_domain_error e = False"

section \<open>Objects of the remote API\<close>

text \<open>
  An \<^verbatim>\<open>RRSet\<close> object as the program builds it: name, type, a list of
  (content, disabled) pairs and the TTL, \<open>None\<close> when the argument is not passed.
\<close>

record rrset =
  rrset_name :: string
  rrset_rtype :: string
  rrset_records :: "(string \<times> bool) list"
  rrset_ttl :: "int option"

text \<open>
  Zone documents as the remote API returns them. Every key the program reads with
  \<^verbatim>\<open>.get(key, default)\<close> is optional.
\<close>

record record_json =
  rj_content :: "string option"
  rj_disabled :: "bool option"

record rrset_json =
  sj_name :: "string option"
  sj_type :: "string option"
  sj_ttl :: "int option"
  sj_records :: "record_json list option"

record details =
  det_kind :: "string option"
  det_serial :: "int option"
  det_notified_serial :: "int option"
  det_rrsets :: "rrset_json list option"

text \<open>
  A zone object of the client library. It carries the zone's name; its document is not
  part of it: \<^verbatim>\<open>zone.details\<close> asks the server for it.
\<close>

record zone =
  zone_name :: string

type_synonym server = string

text \<open>
  The transport boundary. Every call that leaves the process is a \<open>request\<close>; the
  requests sent so far are kept in a log, and the remote side is a family of functions
  from that log and the call's arguments to the call's outcome, an exception or a value.
\<close>

datatype request =
    Req_servers string string
  | Req_zones server
  | Req_get_zone server string
  | Req_details string
  | Req_create_zone server string string "rrset list" "string list"
  | Req_delete_zone server string
  | Req_create_records string "rrset list"
  | Req_delete_records string "rrset list"

record remote =
  servers_of :: "request list \<Rightarrow> string \<Rightarrow> string \<Rightarrow> exn + server list"
  zones_of :: "request list \<Rightarrow> server \<Rightarrow> exn + zone list"
  zone_of :: "request list \<Rightarrow> server \<Rightarrow> string \<Rightarrow> exn + zone"
  details_of :: "request list \<Rightarrow> zone \<Rightarrow> exn + details"
  created_zone :: "request list \<Rightarrow> server \<Rightarrow> string \<Rightarrow> string \<Rightarrow> rrset list \<Rightarrow> string list \<Rightarrow> exn + zone"
  deleted_zone :: "request list \<Rightarrow> server \<Rightarrow> string \<Rightarrow> exn + unit"
  created_records :: "request list \<Rightarrow> zone \<Rightarrow> rrset list \<Rightarrow> exn + unit"
  deleted_records :: "request list \<Rightarrow> zone \<Rightarrow> rrset list \<Rightarrow> exn + unit"

text \<open>
  \<^verbatim>\<open>zone.details\<close>: the zone's document, fetched from the server, or the exception of
  the fetch. The library keeps the document once it has it, so the reads that follow the
  first one inside one statement are not requests of their own.
\<close>

definition zone_details :: "remote \<Rightarrow> zone \<Rightarrow> request list \<Rightarrow> (exn + details) \<times> request list" where
  "zone_details rm z log = (details_of rm log z, log @ [Req_details (zone_name z)])"

text \<open>\<^verbatim>\<open>zone.create_records(rrsets)\<close> and \<^verbatim>\<open>zone.delete_records(rrsets)\<close>.\<close>

definition create_records :: "remote \<Rightarrow> zone \<Rightarrow> rrset list \<Rightarrow> request list \<Rightarrow> (exn + unit) \<times> request list" where
  "create_records rm z rrsets log =
     (created_records rm log z rrsets, log @ [Req_create_records (zone_name z) rrsets])"

definition delete_records :: "remote \<Rightarrow> zone \<Rightarrow> rrset list \<Rightarrow> request list \<Rightarrow> (exn + unit) \<times> request list" where
  "delete_records rm z rrsets log =
     (deleted_records rm log z rrsets, log @ [Req_delete_records (zone_name z) rrsets])"

section \<open>The clock\<close>

text \<open>
  \<^verbatim>\<open>date.today()\<close> returns the current local date. The clock gives that date and, for
  the same instant, the date in UTC.
\<close>

record date =
  d_year :: nat
  d_month :: nat
  d_day :: nat

record clock =
  local_today :: date
  utc_today :: date

definition pad2 :: "nat \<Rightarrow> string" where
  "pad2 n = [digit_char (n div 10 mod 10), digit_char (n mod 10)]"

definition pad4 :: "nat \<Rightarrow> string" where
  "pad4 n = [digit_char (n div 1000 mod 10), digit_char (n div 100 mod 10),
             digit_char (n div 10 mod 10), digit_char (n mod 10)]"

text \<open>\<^verbatim>\<open>d.strftime("%Y%m%d00")\<close>, for the years 1000 to 9999.\<close>

definition strftime_Ymd00 :: "date \<Rightarrow> string" where
  "strftime_Ymd00 d = pad4 (d_year d) @ pad2 (d_month d) @ pad2 (d_day d) @ ''00''"

section \<open>PDNSManager\<close>

text \<open>
  \<open>m_client\<close> holds the endpoint and key the API client was built with; \<open>m_fqdn\<close> is
  computed once by the constructor, for display.
\<close>

record manager =
  m_name :: string
  m_url :: string
  m_api_key :: string
  m_fqdn :: string
  m_client :: "(string \<times> string) option"
  m_api_server :: "server option"
  m_connected :: bool

text \<open>The URL that \<^verbatim>\<open>connect\<close> hands to the API client.\<close>

definition connect_api_url :: "string \<Rightarrow> string" where
  "connect_api_url url =
     (if \<not> endswith url ''/api/v1''
      then (if endswith url ''/'' then url @ ''api/v1'' else url @ ''/api/v1'')
      else url)"

text \<open>
  \<^verbatim>\<open>connect\<close>: the body of the \<^verbatim>\<open>try\<close> either yields the first server or raises; the
  handler clears the flag and raises the wrapped error. The list of servers is fetched
  once.
\<close>

definition connect :: "remote \<Rightarrow> manager \<Rightarrow> request list \<Rightarrow> (exn + bool) \<times> manager \<times> request list" where
  "connect rm m log =
     (let api_url = connect_api_url (m_url m);
          m1 = m\<lparr>m_client := Some (api_url, m_api_key m)\<rparr>;
          log1 = log @ [Req_servers api_url (m_api_key m)];
          body = (case servers_of rm log api_url (m_api_key m) of
                    Inl e \<Rightarrow> Inl e
                  | Inr [] \<Rightarrow> Inl (Exception ''No servers found'')
                  | Inr (s # rest) \<Rightarrow> Inr s)
      in case body of
           Inr s \<Rightarrow> (Inr True, m1\<lparr>m_api_server := Some s, m_connected := True\<rparr>, log1)
         | Inl e \<Rightarrow>
             (Inl (Exception (''Failed to connect to '' @ m_name m @ '': '' @ str_exn e)),
              m1\<lparr>m_connected := False\<rparr>, log1))"

text \<open>\<^verbatim>\<open>if not self.connected: self.connect()\<close>, the first statement of every operation.\<close>

definition connect_if_needed :: "remote \<Rightarrow> manager \<Rightarrow> request list \<Rightarrow> (exn + unit) \<times> manager \<times> request list" where
  "connect_if_needed rm m log =
     (if \<not> m_connected m
      then (case connect rm m log of
              (Inl e, m1, log1) \<Rightarrow> (Inl e, m1, log1)
            | (Inr b, m1, log1) \<Rightarrow> (Inr (), m1, log1))
      else (Inr (), m, log))"

definition get_zones :: "remote \<Rightarrow> manager \<Rightarrow> request list \<Rightarrow> (exn + zone list) \<times> manager \<times> request list" where
  "get_zones rm m log =
     (case connect_if_needed rm m log of
        (Inl e, m1, log1) \<Rightarrow> (Inl e, m1, log1)
      | (Inr u, m1, log1) \<Rightarrow>
          (case (case m_api_server m1 of
                   None \<Rightarrow> (Inl (Attribute_error ''zones''), log1)
                 | Some s \<Rightarrow> (zones_of rm log1 s, log1 @ [Req_zones s])) of
             (Inl e, log2) \<Rightarrow> (Inl (Exception (''Failed to get zones: '' @ str_exn e)), m1, log2)
           | (Inr zs, log2) \<Rightarrow> (Inr zs, m1, log2)))"

text \<open>\<^verbatim>\<open>get_zone\<close> has no \<^verbatim>\<open>try\<close>: what the call raises is what the caller gets.\<close>

definition get_zone :: "remote \<Rightarrow> manager \<Rightarrow> string \<Rightarrow> request list \<Rightarrow> (exn + zone) \<times> manager \<times> request list" where
  "get_zone rm m zone_id log =
     (case connect_if_needed rm m log of
        (Inl e, m1, log1) \<Rightarrow> (Inl e, m1, log1)
      | (Inr u, m1, log1) \<Rightarrow>
          (case m_api_server m1 of
             None \<Rightarrow> (Inl (Attribute_error ''get_zone''), m1, log1)
           | Some s \<Rightarrow> (zone_of rm log1 s zone_id, m1, log1 @ [Req_get_zone s zone_id])))"

text \<open>The default SOA record-set of a new zone, built from the zone name and the serial.\<close>

definition soa_content :: "string \<Rightarrow> string \<Rightarrow> string" where
  "soa_content name serial =
     ''ns1.'' @ name @ '' hostmaster.'' @ name @ '' '' @ serial @ '' 28800 7200 604800 86400''"

definition soa_rrset :: "string \<Rightarrow> string \<Rightarrow> rrset" where
  "soa_rrset name serial =
     \<lparr>rrset_name = name, rrset_rtype = ''SOA'',
      rrset_records = [(soa_content name serial, False)], rrset_ttl = Some 86400\<rparr>"

text \<open>
  \<^verbatim>\<open>create_zone\<close>; \<open>nameservers\<close> is \<open>None\<close> when the argument is left out, and
  \<^verbatim>\<open>nameservers or []\<close> turns that into the empty list.
\<close>

definition create_zone ::
  "remote \<Rightarrow> clock \<Rightarrow> manager \<Rightarrow> string \<Rightarrow> string \<Rightarrow> string list option \<Rightarrow> request list
     \<Rightarrow> (exn + zone) \<times> manager \<times> request list" where
  "create_zone rm clk m name kind nameservers log =
     (case connect_if_needed rm m log of
        (Inl e, m1, log1) \<Rightarrow> (Inl e, m1, log1)
      | (Inr u, m1, log1) \<Rightarrow>
          (let serial = strftime_Ymd00 (local_today clk);
               soa_r = soa_rrset name serial;
               ns = (case nameservers of None \<Rightarrow> [] | Some l \<Rightarrow> l)
           in case (case m_api_server m1 of
                      None \<Rightarrow> (Inl (Attribute_error ''create_zone''), log1)
                    | Some s \<Rightarrow> (created_zone rm log1 s name kind [soa_r] ns,
                                 log1 @ [Req_create_zone s name kind [soa_r] ns])) of
                (Inl e, log2) \<Rightarrow> (Inl (Exception (''Failed to create zone: '' @ str_exn e)), m1, log2)
              | (Inr z, log2) \<Rightarrow> (Inr z, m1, log2)))"

definition delete_zone :: "remote \<Rightarrow> manager \<Rightarrow> string \<Rightarrow> request list \<Rightarrow> (exn + bool) \<times> manager \<times> request list" where
  "delete_zone rm m zone_id log =
     (case connect_if_needed rm m log of
        (Inl e, m1, log1) \<Rightarrow> (Inl e, m1, log1)
      | (Inr u, m1, log1) \<Rightarrow>
          (case (case m_api_server m1 of
                   None \<Rightarrow> (Inl (Attribute_error ''delete_zone''), log1)
                 | Some s \<Rightarrow> (deleted_zone rm log1 s zone_id, log1 @ [Req_delete_zone s zone_id])) of
             (Inl e, log2) \<Rightarrow> (Inl (Exception (''Failed to delete zone: '' @ str_exn e)), m1, log2)
           | (Inr u2, log2) \<Rightarrow> (Inr True, m1, log2)))"

section \<open>Screens: shared parts\<close>

datatype severity = Information | Warning | Error

type_synonym notice = "string \<times> severity"

text \<open>A value that is a number when the remote document has it and a string otherwise.\<close>

datatype pyval = Py_int int | Py_str string

fun str_pyval :: "pyval \<Rightarrow> string" where
  "str_pyval (Py_int i) = str_int i"
| "str_pyval (Py_str s) = s"

section \<open>ZonesScreen\<close>

text \<open>
  One entry of \<^verbatim>\<open>all_zones\<close>. The entry refers to its manager object; the reference is
  the manager's position in the screen's list of managers.
\<close>

record zone_data =
  zd_manager :: nat
  zd_id :: string
  zd_name :: string
  zd_kind :: string
  zd_serial :: pyval
  zd_records :: nat
  zd_notified_serial :: pyval

record zones_screen =
  zs_managers :: "manager list"
  zs_all_zones :: "zone_data list"
  zs_table :: "string list list"
  zs_notices :: "notice list"

text \<open>The entry built for a zone, from the zone object and its document.\<close>

definition make_zone_data :: "nat \<Rightarrow> zone \<Rightarrow> details \<Rightarrow> zone_data" where
  "make_zone_data i z d =
     \<lparr>zd_manager = i,
      zd_id = zone_name z,
      zd_name = zone_name z,
      zd_kind = (case det_kind d of None \<Rightarrow> ''N/A'' | Some k \<Rightarrow> k),
      zd_serial = (case det_serial d of None \<Rightarrow> Py_str ''N/A'' | Some n \<Rightarrow> Py_int n),
      zd_records = length (case det_rrsets d of None \<Rightarrow> [] | Some rs \<Rightarrow> rs),
      zd_notified_serial =
        (case det_notified_serial d of None \<Rightarrow> Py_str ''N/A'' | Some n \<Rightarrow> Py_int n)\<rparr>"

text \<open>The seven cells of a row of the zones table.\<close>

definition zone_row :: "manager list \<Rightarrow> zone_data \<Rightarrow> string list" where
  "zone_row ms zd =
     [m_name (ms ! zd_manager zd), m_fqdn (ms ! zd_manager zd), zd_name zd, zd_kind zd,
      str_pyval (zd_serial zd), str_nat (zd_records zd), str_pyval (zd_notified_serial zd)]"

text \<open>
  The inner loop of \<^verbatim>\<open>load_zones\<close>, over the zones of one manager. Building the entry
  of a zone reads the zone's document first; when that read raises, the loop is left with
  the exception, and the entries appended for the zones before stay.
\<close>

fun load_zone_list ::
  "remote \<Rightarrow> nat \<Rightarrow> zone list \<Rightarrow> zones_screen \<times> request list
     \<Rightarrow> exn option \<times> zones_screen \<times> request list" where
  "load_zone_list rm i [] (scr, log) = (None, scr, log)"
| "load_zone_list rm i (z # zs) (scr, log) =
     (case zone_details rm z log of
        (Inl e, log1) \<Rightarrow> (Some e, scr, log1)
      | (Inr d, log1) \<Rightarrow>
          load_zone_list rm i zs
            (scr\<lparr>zs_all_zones := zs_all_zones scr @ [make_zone_data i z d],
                 zs_table := zs_table scr @ [zone_row (zs_managers scr) (make_zone_data i z d)]\<rparr>,
             log1))"

text \<open>
  The body of the \<^verbatim>\<open>try\<close> for one manager: list the zones, then run the inner loop.
  It ends normally or with the exception of the listing or of a document read.
\<close>

definition load_manager_zones ::
  "remote \<Rightarrow> nat \<Rightarrow> zones_screen \<times> request list \<Rightarrow> exn option \<times> zones_screen \<times> request list" where
  "load_manager_zones rm i st =
     (case st of (scr, log) \<Rightarrow>
        (case get_zones rm (zs_managers scr ! i) log of
           (Inl e, m1, log1) \<Rightarrow> (Some e, scr\<lparr>zs_managers := (zs_managers scr)[i := m1]\<rparr>, log1)
         | (Inr zones, m1, log1) \<Rightarrow>
             load_zone_list rm i zones (scr\<lparr>zs_managers := (zs_managers scr)[i := m1]\<rparr>, log1)))"

text \<open>
  The outer loop, over the managers in the order of the list: the \<^verbatim>\<open>try\<close> around one
  manager's work, and the handler that reports the failure and goes on.
\<close>

fun load_managers :: "remote \<Rightarrow> nat list \<Rightarrow> zones_screen \<times> request list \<Rightarrow> zones_screen \<times> request list" where
  "load_managers rm [] st = st"
| "load_managers rm (i # rest) st =
     (case load_manager_zones rm i st of
        (None, scr1, log1) \<Rightarrow> load_managers rm rest (scr1, log1)
      | (Some e, scr1, log1) \<Rightarrow>
          load_managers rm rest
            (scr1\<lparr>zs_notices := zs_notices scr1 @
                 [(''Error loading zones from '' @ m_name (zs_managers scr1 ! i) @ '': '' @
                   str_exn e, Error)]\<rparr>,
             log1))"

definition load_zones :: "remote \<Rightarrow> zones_screen \<times> request list \<Rightarrow> zones_screen \<times> request list" where
  "load_zones rm st =
     (case st of (scr, log) \<Rightarrow>
        (case load_managers rm [0..<length (zs_managers scr)]
                (scr\<lparr>zs_table := [], zs_all_zones := []\<rparr>, log) of
           (scr1, log1) \<Rightarrow>
             (scr1\<lparr>zs_notices := zs_notices scr1 @
                 [(''Loaded '' @ str_nat (length (zs_all_zones scr1)) @ '' zones from '' @
                   str_nat (length (zs_managers scr1)) @ '' server(s)'', Information)]\<rparr>,
              log1)))"

definition zone_matches :: "manager list \<Rightarrow> string \<Rightarrow> zone_data \<Rightarrow> bool" where
  "zone_matches ms search_lower zd =
     (contains (lower (zd_name zd)) search_lower \<or>
      contains (lower (zd_kind zd)) search_lower \<or>
      contains (lower (m_name (ms ! zd_manager zd))) search_lower \<or>
      contains (lower (m_fqdn (ms ! zd_manager zd))) search_lower)"

fun filter_zone_rows :: "manager list \<Rightarrow> string \<Rightarrow> zone_data list \<Rightarrow> string list list" where
  "filter_zone_rows ms search_lower [] = []"
| "filter_zone_rows ms search_lower (zd # zds) =
     (if zone_matches ms search_lower zd
      then zone_row ms zd # filter_zone_rows ms search_lower zds
      else filter_zone_rows ms search_lower zds)"

definition filter_zones :: "string \<Rightarrow> zones_screen \<Rightarrow> zones_screen" where
  "filter_zones search_term scr =
     scr\<lparr>zs_table := filter_zone_rows (zs_managers scr) (lower search_term) (zs_all_zones scr)\<rparr>"


section \<open>ZoneDetailsScreen\<close>

text \<open>One entry of \<^verbatim>\<open>all_records\<close>: a record, with the record-set it came from.\<close>

record record_row =
  row_name :: string
  row_type :: string
  row_content :: string
  row_ttl :: int
  row_disabled :: bool
  row_rrset :: rrset_json

record details_screen =
  ds_manager :: manager
  ds_zone_id :: string
  ds_zone_name :: string
  ds_zone :: "zone option"
  ds_all_records :: "record_row list"
  ds_table :: "string list list"
  ds_notices :: "notice list"

text \<open>
  \<^verbatim>\<open>on_data_table_row_selected\<close> of the zones screen opens the details screen of the
  selected entry; the constructor stores manager, id and name.
\<close>

definition ZoneDetailsScreen_init :: "manager \<Rightarrow> string \<Rightarrow> string \<Rightarrow> details_screen" where
  "ZoneDetailsScreen_init m zone_id name =
     \<lparr>ds_manager = m, ds_zone_id = zone_id, ds_zone_name = name, ds_zone = None,
      ds_all_records = [], ds_table = [], ds_notices = []\<rparr>"


definition shorten :: "string \<Rightarrow> string" where
  "shorten content = (if length content > 50 then take 50 content @ ''...'' else content)"

definition yes_no :: "bool \<Rightarrow> string" where
  "yes_no b = (if b then ''Yes'' else ''No'')"

definition make_record_row :: "rrset_json \<Rightarrow> record_json \<Rightarrow> record_row" where
  "make_record_row rs r =
     \<lparr>row_name = (case sj_name rs of None \<Rightarrow> [] | Some n \<Rightarrow> n),
      row_type = (case sj_type rs of None \<Rightarrow> [] | Some t \<Rightarrow> t),
      row_content = (case rj_content r of None \<Rightarrow> [] | Some c \<Rightarrow> c),
      row_ttl = (case sj_ttl rs of None \<Rightarrow> 3600 | Some t \<Rightarrow> t),
      row_disabled = (case rj_disabled r of None \<Rightarrow> False | Some d \<Rightarrow> d),
      row_rrset = rs\<rparr>"

text \<open>The row that \<^verbatim>\<open>load_records\<close> adds to the table for one record.\<close>

definition loaded_row :: "rrset_json \<Rightarrow> record_json \<Rightarrow> string list" where
  "loaded_row rs r =
     (let row = make_record_row rs r
      in [row_name row, row_type row, shorten (row_content row),
          (case sj_ttl rs of None \<Rightarrow> [] | Some t \<Rightarrow> str_int t), yes_no (row_disabled row)])"

fun load_record_list :: "rrset_json \<Rightarrow> record_json list \<Rightarrow> details_screen \<Rightarrow> details_screen" where
  "load_record_list rs [] scr = scr"
| "load_record_list rs (r # recs) scr =
     load_record_list rs recs
       (scr\<lparr>ds_all_records := ds_all_records scr @ [make_record_row rs r],
            ds_table := ds_table scr @ [loaded_row rs r]\<rparr>)"

fun load_rrset_list :: "rrset_json list \<Rightarrow> details_screen \<Rightarrow> details_screen" where
  "load_rrset_list [] scr = scr"
| "load_rrset_list (rs # rest) scr =
     load_rrset_list rest
       (load_record_list rs (case sj_records rs of None \<Rightarrow> [] | Some recs \<Rightarrow> recs) scr)"

definition load_records :: "remote \<Rightarrow> details_screen \<times> request list \<Rightarrow> details_screen \<times> request list" where
  "load_records rm st =
     (case st of (scr, log) \<Rightarrow>
        (case get_zone rm (ds_manager scr) (ds_zone_id scr) log of
           (Inr z, m1, log1) \<Rightarrow>
             (let scr1 = scr\<lparr>ds_manager := m1, ds_zone := Some z, ds_table := [],
                             ds_all_records := []\<rparr>
              in case zone_details rm z log1 of
                   (Inr d, log2) \<Rightarrow>
                     (let scr2 = load_rrset_list
                                   (case det_rrsets d of None \<Rightarrow> [] | Some rs \<Rightarrow> rs) scr1
                      in (scr2\<lparr>ds_notices := ds_notices scr2 @
                            [(''Loaded '' @ str_nat (length (ds_all_records scr2)) @ '' records'',
                              Information)]\<rparr>,
                          log2))
                 | (Inl e, log2) \<Rightarrow>
                     (scr1\<lparr>ds_notices := ds_notices scr1 @
                        [(''Error loading records: '' @ str_exn e, Error)]\<rparr>,
                      log2))
         | (Inl e, m1, log1) \<Rightarrow>
             (scr\<lparr>ds_manager := m1,
                  ds_notices := ds_notices scr @
                    [(''Error loading records: '' @ str_exn e, Error)]\<rparr>,
              log1)))"

section \<open>Record forms\<close>

text \<open>
  What the user typed into a form, and what the form hands to its callback. Pressing a
  button either leaves the form open with an error notice (\<open>Rejected\<close>) or closes it with
  a value (\<open>Dismissed\<close>; \<open>None\<close> is a cancelled form).
\<close>

record create_form =
  cf_name :: string
  cf_type :: string
  cf_content :: string
  cf_ttl :: string

record create_result =
  cr_name :: string
  cr_type :: string
  cr_content :: string
  cr_ttl :: int

record edit_form =
  ef_content :: string
  ef_ttl :: string

record edit_result =
  er_content :: string
  er_ttl :: int

datatype 'a modal_outcome = Rejected string | Dismissed 'a

definition CreateRecordModal_on_button_pressed :: "string \<Rightarrow> create_form \<Rightarrow> create_result option modal_outcome" where
  "CreateRecordModal_on_button_pressed button_id f =
     (if button_id = ''create-btn''
      then (let name = strip (cf_name f);
                rtype = cf_type f;
                content = strip (cf_content f);
                ttl_str = strip (cf_ttl f)
            in if name = [] \<or> content = [] then Rejected ''Name and content are required''
               else (case py_int ttl_str of
                       None \<Rightarrow> Rejected ''TTL must be a number''
                     | Some ttl \<Rightarrow>
                         Dismissed (Some \<lparr>cr_name = name, cr_type = rtype, cr_content = content,
                                          cr_ttl = ttl\<rparr>)))
      else Dismissed None)"

definition EditRecordModal_on_button_pressed :: "string \<Rightarrow> edit_form \<Rightarrow> edit_result option modal_outcome" where
  "EditRecordModal_on_button_pressed button_id f =
     (if button_id = ''save-btn''
      then (let content = strip (ef_content f);
                ttl_str = strip (ef_ttl f)
            in if content = [] then Rejected ''Content is required''
               else (case py_int ttl_str of
                       None \<Rightarrow> Rejected ''TTL must be a number''
                     | Some ttl \<Rightarrow> Dismissed (Some \<lparr>er_content = content, er_ttl = ttl\<rparr>)))
      else Dismissed None)"

definition ConfirmModal_on_button_pressed :: "string \<Rightarrow> bool modal_outcome" where
  "ConfirmModal_on_button_pressed button_id = Dismissed (button_id = ''yes-btn'')"

section \<open>Record workflows\<close>

text \<open>The fully-qualified name that \<^verbatim>\<open>on_create_record_result\<close> computes.\<close>

definition full_name :: "string \<Rightarrow> string \<Rightarrow> string" where
  "full_name name zname =
     (let fn = (if name \<noteq> [] then name @ ''.'' @ zname else zname)
      in if \<not> endswith fn ''.'' then fn @ ''.'' else fn)"

definition on_create_record_result ::
  "remote \<Rightarrow> create_result option \<Rightarrow> details_screen \<times> request list \<Rightarrow> details_screen \<times> request list" where
  "on_create_record_result rm result st =
     (case st of (scr, log) \<Rightarrow>
        (case result of
           None \<Rightarrow> (scr, log)
         | Some r \<Rightarrow>
             (case get_zone rm (ds_manager scr) (ds_zone_id scr) log of
                (Inl e, m1, log1) \<Rightarrow>
                  (scr\<lparr>ds_manager := m1,
                       ds_notices := ds_notices scr @
                         [(''Error creating record: '' @ str_exn e, Error)]\<rparr>,
                   log1)
              | (Inr z, m1, log1) \<Rightarrow>
                  (let rrset = \<lparr>rrset_name = full_name (cr_name r) (ds_zone_name scr),
                                rrset_rtype = cr_type r,
                                rrset_records = [(cr_content r, False)],
                                rrset_ttl = Some (cr_ttl r)\<rparr>
                   in case create_records rm z [rrset] log1 of
                        (Inl e, log2) \<Rightarrow>
                          (scr\<lparr>ds_manager := m1,
                               ds_notices := ds_notices scr @
                                 [(''Error creating record: '' @ str_exn e, Error)]\<rparr>,
                           log2)
                      | (Inr u, log2) \<Rightarrow>
                          load_records rm
                            (scr\<lparr>ds_manager := m1,
                                 ds_notices := ds_notices scr @
                                   [(''Record created successfully'', Information)]\<rparr>,
                             log2)))))"

definition on_edit_record_result ::
  "remote \<Rightarrow> edit_result option \<Rightarrow> record_row \<Rightarrow> details_screen \<times> request list
     \<Rightarrow> details_screen \<times> request list" where
  "on_edit_record_result rm result row st =
     (case st of (scr, log) \<Rightarrow>
        (case result of
           None \<Rightarrow> (scr, log)
         | Some r \<Rightarrow>
             (case get_zone rm (ds_manager scr) (ds_zone_id scr) log of
                (Inl e, m1, log1) \<Rightarrow>
                  (scr\<lparr>ds_manager := m1,
                       ds_notices := ds_notices scr @
                         [(''Error updating record: '' @ str_exn e, Error)]\<rparr>,
                   log1)
              | (Inr z, m1, log1) \<Rightarrow>
                  (let rrset = \<lparr>rrset_name = row_name row,
                                rrset_rtype = row_type row,
                                rrset_records = [(er_content r, row_disabled row)],
                                rrset_ttl = Some (er_ttl r)\<rparr>
                   in case create_records rm z [rrset] log1 of
                        (Inl e, log2) \<Rightarrow>
                          (scr\<lparr>ds_manager := m1,
                               ds_notices := ds_notices scr @
                                 [(''Error updating record: '' @ str_exn e, Error)]\<rparr>,
                           log2)
                      | (Inr u, log2) \<Rightarrow>
                          load_records rm
                            (scr\<lparr>ds_manager := m1,
                                 ds_notices := ds_notices scr @
                                   [(''Record updated successfully'', Information)]\<rparr>,
                             log2)))))"

definition on_delete_record_result ::
  "remote \<Rightarrow> bool \<Rightarrow> record_row \<Rightarrow> details_screen \<times> request list
     \<Rightarrow> details_screen \<times> request list" where
  "on_delete_record_result rm confirmed row st =
     (case st of (scr, log) \<Rightarrow>
        if confirmed
        then (case get_zone rm (ds_manager scr) (ds_zone_id scr) log of
                (Inl e, m1, log1) \<Rightarrow>
                  (scr\<lparr>ds_manager := m1,
                       ds_notices := ds_notices scr @
                         [(''Error deleting record: '' @ str_exn e, Error)]\<rparr>,
                   log1)
              | (Inr z, m1, log1) \<Rightarrow>
                  (let rrset = \<lparr>rrset_name = row_name row,
                                rrset_rtype = row_type row,
                                rrset_records = [],
                                rrset_ttl = None\<rparr>
                   in case delete_records rm z [rrset] log1 of
                        (Inl e, log2) \<Rightarrow>
                          (scr\<lparr>ds_manager := m1,
                               ds_notices := ds_notices scr @
                                 [(''Error deleting record: '' @ str_exn e, Error)]\<rparr>,
                           log2)
                      | (Inr u, log2) \<Rightarrow>
                          load_records rm
                            (scr\<lparr>ds_manager := m1,
                                 ds_notices := ds_notices scr @
                                   [(''Record deleted successfully'', Information)]\<rparr>,
                             log2)))
        else (scr, log))"

text \<open>
  The actions open a form and register the callback. One button press on the form is
  modelled: a rejected form stays open and its callback does not run; a dismissed form
  passes its value to the callback. The edit action reads the selected row first.
\<close>

definition action_create_record ::
  "remote \<Rightarrow> string \<Rightarrow> create_form \<Rightarrow> details_screen \<times> request list \<Rightarrow> details_screen \<times> request list" where
  "action_create_record rm button_id f st =
     (case st of (scr, log) \<Rightarrow>
        (case CreateRecordModal_on_button_pressed button_id f of
           Rejected msg \<Rightarrow> (scr\<lparr>ds_notices := ds_notices scr @ [(msg, Error)]\<rparr>, log)
         | Dismissed result \<Rightarrow> on_create_record_result rm result (scr, log)))"

definition action_edit_record ::
  "remote \<Rightarrow> int \<Rightarrow> string \<Rightarrow> edit_form \<Rightarrow> details_screen \<times> request list
     \<Rightarrow> exn + details_screen \<times> request list" where
  "action_edit_record rm cursor_row button_id f st =
     (case st of (scr, log) \<Rightarrow>
        if cursor_row < 0
        then Inr (scr\<lparr>ds_notices := ds_notices scr @
                    [(''Please select a record to edit'', Warning)]\<rparr>, log)
        else if nat cursor_row < length (ds_all_records scr)
        then (let row = ds_all_records scr ! nat cursor_row
              in case EditRecordModal_on_button_pressed button_id f of
                   Rejected msg \<Rightarrow> Inr (scr\<lparr>ds_notices := ds_notices scr @ [(msg, Error)]\<rparr>, log)
                 | Dismissed result \<Rightarrow> Inr (on_edit_record_result rm result row (scr, log)))
        else Inl (Index_error ''list index out of range''))"

section \<open>Reading the request log\<close>

text \<open>
  Requests that only read from the remote server, and requests that submit record-sets
  to a zone. \<open>submissions\<close> keeps the latter, in the order they were sent.
\<close>

fun is_read :: "request \<Rightarrow> bool" where
  "is_read (Req_servers u k) = True"
| "is_read (Req_zones s) = True"
| "is_read (Req_get_zone s z) = True"
| "is_read (Req_details z) = True"
| "is_read r = False"

fun is_submission :: "request \<Rightarrow> bool" where
  "is_submission (Req_create_records z rs) = True"
| "is_submission (Req_delete_records z rs) = True"
| "is_submission r = False"

definition submissions :: "request list \<Rightarrow> request list" where
  "submissions log = filter is_submission log"

text \<open>
  What the remote side returns during a load. \<open>read_details\<close> reads the documents of
  the zones of a list in order and stops after the first read that raises.
  \<open>manager_outcome\<close> asks one manager for its zones and then for their documents;
  \<open>gateway_outcomes\<close> does so for one manager after the other, in the order given,
  each call seeing the requests of the calls before it. For every manager that gives
  the outcome of the listing and the outcomes of the document reads.
\<close>

fun read_details :: "remote \<Rightarrow> zone list \<Rightarrow> request list \<Rightarrow> (exn + details) list \<times> request list" where
  "read_details rm [] log = ([], log)"
| "read_details rm (z # zs) log =
     (case zone_details rm z log of
        (Inl e, log1) \<Rightarrow> ([Inl e], log1)
      | (Inr d, log1) \<Rightarrow>
          (case read_details rm zs log1 of (rs, log2) \<Rightarrow> (Inr d # rs, log2)))"

type_synonym gateway_outcome = "nat \<times> (exn + zone list) \<times> (exn + details) list"

definition manager_outcome ::
  "remote \<Rightarrow> nat \<Rightarrow> manager \<Rightarrow> request list \<Rightarrow> gateway_outcome \<times> manager \<times> request list" where
  "manager_outcome rm i m log =
     (case get_zones rm m log of
        (Inl e, m1, log1) \<Rightarrow> ((i, Inl e, []), m1, log1)
      | (Inr zones, m1, log1) \<Rightarrow>
          (case read_details rm zones log1 of (rs, log2) \<Rightarrow> ((i, Inr zones, rs), m1, log2)))"

fun gateway_outcomes :: "remote \<Rightarrow> nat list \<Rightarrow> manager list \<Rightarrow> request list \<Rightarrow> gateway_outcome list" where
  "gateway_outcomes rm [] ms log = []"
| "gateway_outcomes rm (i # rest) ms log =
     (case manager_outcome rm i (ms ! i) log of
        (out, m1, log1) \<Rightarrow> out # gateway_outcomes rm rest (ms[i := m1]) log1)"

text \<open>The zones a manager's listing returned: none when the listing failed.\<close>

fun listed_zones :: "gateway_outcome \<Rightarrow> zone list" where
  "listed_zones (i, Inr zones, rs) = zones"
| "listed_zones (i, Inl e, rs) = []"

text \<open>
  The entries that one manager's outcome contributes: none when the listing failed,
  otherwise one for each listed zone whose document was read, up to the first read that
  failed.
\<close>

fun read_entries :: "nat \<Rightarrow> zone list \<Rightarrow> (exn + details) list \<Rightarrow> zone_data list" where
  "read_entries i (z # zs) (Inr d # rs) = make_zone_data i z d # read_entries i zs rs"
| "read_entries i zs rs = []"

fun outcome_zones :: "gateway_outcome \<Rightarrow> zone_data list" where
  "outcome_zones (i, Inr zones, rs) = read_entries i zones rs"
| "outcome_zones (i, Inl e, rs) = []"

text \<open>
  The exception one manager's outcome ends with, if any: that of the listing, or that of
  the document read that failed.
\<close>

fun first_error :: "(exn + details) list \<Rightarrow> exn option" where
  "first_error [] = None"
| "first_error (Inl e # rs) = Some e"
| "first_error (Inr d # rs) = first_error rs"

fun outcome_error :: "gateway_outcome \<Rightarrow> exn option" where
  "outcome_error (i, Inl e, rs) = Some e"
| "outcome_error (i, Inr zones, rs) = first_error rs"

definition outcome_warnings :: "manager list \<Rightarrow> gateway_outcome \<Rightarrow> notice list" where
  "outcome_warnings ms out =
     (case outcome_error out of
        None \<Rightarrow> []
      | Some e \<Rightarrow>
          [(''Error loading zones from '' @ m_name (ms ! fst out) @ '': '' @ str_exn e, Error)])"

section \<open>Concrete servers, managers and screens\<close>

text \<open>
  A zone with two record-sets, a remote side that answers every call, one that refuses
  every call, and one where only the endpoint of server A answers.
\<close>

definition example_zone :: zone where
  "example_zone = \<lparr>zone_name = ''example.com.''\<rparr>"

definition example_details :: details where
  "example_details =
     \<lparr>det_kind = Some ''Native'', det_serial = Some 7, det_notified_serial = None,
      det_rrsets = Some
        [\<lparr>sj_name = Some ''example.com.'', sj_type = Some ''A'', sj_ttl = Some 300,
          sj_records = Some [\<lparr>rj_content = Some ''192.0.2.1'', rj_disabled = Some False\<rparr>,
                             \<lparr>rj_content = Some ''192.0.2.2'', rj_disabled = Some True\<rparr>]\<rparr>]\<rparr>"

definition created_example :: "string \<Rightarrow> zone" where
  "created_example name = \<lparr>zone_name = name\<rparr>"

definition reachable :: remote where
  "reachable =
     \<lparr>servers_of = (\<lambda>log u k. Inr [''localhost'']),
      zones_of = (\<lambda>log s. Inr [example_zone]),
      zone_of = (\<lambda>log s z. Inr example_zone),
      details_of = (\<lambda>log z. Inr example_details),
      created_zone = (\<lambda>log s n k rs ns. Inr (created_example n)),
      deleted_zone = (\<lambda>log s z. Inr ()),
      created_records = (\<lambda>log z rs. Inr ()),
      deleted_records = (\<lambda>log z rs. Inr ())\<rparr>"

definition unreachable :: remote where
  "unreachable =
     \<lparr>servers_of = (\<lambda>log u k. Inl (Transport_error ''connection refused'')),
      zones_of = (\<lambda>log s. Inl (Transport_error ''connection refused'')),
      zone_of = (\<lambda>log s z. Inl (Transport_error ''connection refused'')),
      details_of = (\<lambda>log z. Inl (Transport_error ''connection refused'')),
      created_zone = (\<lambda>log s n k rs ns. Inl (Transport_error ''connection refused'')),
      deleted_zone = (\<lambda>log s z. Inl (Transport_error ''connection refused'')),
      created_records = (\<lambda>log z rs. Inl (Transport_error ''connection refused'')),
      deleted_records = (\<lambda>log z rs. Inl (Transport_error ''connection refused''))\<rparr>"

definition only_a_reachable :: remote where
  "only_a_reachable =
     reachable\<lparr>servers_of := (\<lambda>log u k.
        if u = ''http://a:8081/api/v1'' then Inr [''localhost'']
        else Inl (Transport_error ''connection refused''))\<rparr>"

definition manager_a :: manager where
  "manager_a =
     \<lparr>m_name = ''A'', m_url = ''http://a:8081'', m_api_key = ''secret'', m_fqdn = ''a'',
      m_client = None, m_api_server = None, m_connected = False\<rparr>"

definition manager_b :: manager where
  "manager_b =
     \<lparr>m_name = ''B'', m_url = ''http://b:8081/'', m_api_key = ''secret'', m_fqdn = ''b'',
      m_client = None, m_api_server = None, m_connected = False\<rparr>"

definition connected_manager :: manager where
  "connected_manager =
     manager_a\<lparr>m_client := Some (''http://a:8081/api/v1'', ''secret''),
               m_api_server := Some ''localhost'', m_connected := True\<rparr>"

definition two_server_screen :: zones_screen where
  "two_server_screen =
     \<lparr>zs_managers = [manager_a, manager_b], zs_all_zones = [], zs_table = [], zs_notices = []\<rparr>"

definition example_row :: record_row where
  "example_row =
     \<lparr>row_name = ''example.com.'', row_type = ''A'', row_content = ''192.0.2.2'',
      row_ttl = 300, row_disabled = True,
      row_rrset = \<lparr>sj_name = Some ''example.com.'', sj_type = Some ''A'', sj_ttl = Some 300,
                    sj_records = Some [\<lparr>rj_content = Some ''192.0.2.1'', rj_disabled = Some False\<rparr>,
                                       \<lparr>rj_content = Some ''192.0.2.2'', rj_disabled = Some True\<rparr>]\<rparr>\<rparr>"

definition example_details_screen :: details_screen where
  "example_details_screen =
     (ZoneDetailsScreen_init connected_manager ''example.com.'' ''example.com.'')
       \<lparr>ds_all_records := [example_row]\<rparr>"

text \<open>Half past midnight on 2 January 2024, one hour east of Greenwich.\<close>

definition new_year_clock :: clock where
  "new_year_clock =
     \<lparr>local_today = \<lparr>d_year = 2024, d_month = 1, d_day = 2\<rparr>,
      utc_today = \<lparr>d_year = 2024, d_month = 1, d_day = 1\<rparr>\<rparr>"

text \<open>
  A remote side whose one server lists two zones and then fails on the document of the
  second, and the screen with that server's manager alone.
\<close>

definition second_zone_unreadable :: remote where
  "second_zone_unreadable =
     reachable\<lparr>zones_of := (\<lambda>log s. Inr [example_zone, \<lparr>zone_name = ''example.org.''\<rparr>]),
               details_of := (\<lambda>log z.
                 if zone_name z = ''example.org.'' then Inl (Transport_error ''timed out'')
                 else Inr example_details)\<rparr>"

definition one_server_screen :: zones_screen where
  "one_server_screen =
     \<lparr>zs_managers = [connected_manager], zs_all_zones = [], zs_table = [], zs_notices = []\<rparr>"

text \<open>The zones screen after a load in which only server A answered.\<close>

definition loaded_screen :: zones_screen where
  "loaded_screen =
     \<lparr>zs_managers = [connected_manager, manager_b\<lparr>m_client := Some (''http://b:8081/api/v1'', ''secret'')\<rparr>],
      zs_all_zones = [make_zone_data 0 example_zone example_details],
      zs_table = [[''A'', ''a'', ''example.com.'', ''Native'', ''7'', ''1'', ''N/A'']],
      zs_notices = [(''Error loading zones from B: Failed to connect to B: connection refused'', Error),
                    (''Loaded 1 zones from 2 server(s)'', Information)]\<rparr>"

text \<open>Record forms in which the TTL field reads \<^verbatim>\<open>abc\<close>.\<close>

definition abc_create_form :: create_form where
  "abc_create_form = \<lparr>cf_name = ''www'', cf_type = ''A'', cf_content = ''192.0.2.9'', cf_ttl = ''abc''\<rparr>"

definition abc_edit_form :: edit_form where
  "abc_edit_form = \<lparr>ef_content = ''192.0.2.9'', ef_ttl = ''abc''\<rparr>"

section \<open>Facts about the string functions\<close>

text \<open>
  The string functions agree with the list relations of the library: a prefix, a suffix,
  a contiguous sublist.
\<close>

lemma startswith_prefix: "startswith s p \<longleftrightarrow> prefix p s"
  by (induction s p rule: startswith.induct) auto

lemma endswith_suffix: "endswith s p \<longleftrightarrow> suffix p s"
  by (simp add: endswith_def startswith_prefix suffix_to_prefix)

lemma contains_sublist: "contains s n \<longleftrightarrow> sublist n s"
  by (induction s) (auto simp: startswith_prefix sublist_Cons_right)

lemma contains_empty: "contains s []"
  by (simp add: contains_sublist)

lemma lower_empty: "lower [] = []" by (simp add: lower_def)

lemma str_nat_small: "n < 10 \<Longrightarrow> str_nat n = [digit_char n]"
  by (simp add: str_nat.simps)

lemma str_nat_large: "\<not> n < 10 \<Longrightarrow> str_nat n = str_nat (n div 10) @ [digit_char (n mod 10)]"
  by (subst str_nat.simps) simp

lemmas str_eval = str_int_def str_nat_small str_nat_large digit_char_def

lemma dropWhile_rev_keep:
  assumes "xs = [] \<or> \<not> P (hd xs)"
  shows "dropWhile P (rev (dropWhile P (rev xs))) = rev (dropWhile P (rev xs))"
proof (cases "dropWhile P (rev xs)")
  case Nil
  then show ?thesis by (simp only: rev.simps dropWhile.simps)
next
  case (Cons y ys)
  then have ne: "xs \<noteq> []" by auto
  with assms have h: "\<not> P (hd xs)" by simp
  from ne obtain x xs' where x: "xs = x # xs'" by (cases xs) auto
  have "rev xs = rev xs' @ [x]" using x by simp
  then have "dropWhile P (rev xs) = dropWhile P (rev xs') @ [x]"
    using h x by (simp add: dropWhile_append3)
  then have "rev (dropWhile P (rev xs)) = x # rev (dropWhile P (rev xs'))" by simp
  then show ?thesis using h x by simp
qed

lemma strip_idem: "strip (strip s) = strip s"
proof -
  let ?u = "dropWhile isspace s"
  have u: "?u = [] \<or> \<not> isspace (hd ?u)" by (metis hd_dropWhile)
  have "dropWhile isspace (strip s) = strip s"
    unfolding strip_def using u by (rule dropWhile_rev_keep [of "dropWhile isspace s" isspace])
  then show ?thesis
    by (simp add: strip_def dropWhile_idem)
qed

lemma py_int_strip: "py_int (strip s) = py_int s"
  by (simp add: py_int_def strip_idem)

lemma py_int_abc: "py_int ''abc'' = None"
  by (simp add: py_int_def strip_def isspace_def int_unsigned_def isdigit_def)

lemma strip_plain: "strip ''abc'' = ''abc''" "strip ''www'' = ''www''" "strip ''192.0.2.9'' = ''192.0.2.9''"
  by (simp_all add: strip_def isspace_def)

section \<open>Unfolding the operations on concrete inputs\<close>

lemmas example_defs = example_zone_def created_example_def reachable_def unreachable_def
  only_a_reachable_def manager_a_def manager_b_def connected_manager_def two_server_screen_def
  example_row_def example_details_screen_def new_year_clock_def ZoneDetailsScreen_init_def
  example_details_def second_zone_unreadable_def one_server_screen_def

lemmas gateway_defs = connect_def connect_api_url_def endswith_def connect_if_needed_def
  get_zones_def get_zone_def create_zone_def delete_zone_def zone_details_def Let_def

lemmas screen_eval = load_zones_def load_zone_list.simps load_manager_zones_def
  load_managers.simps make_zone_data_def
  zone_row_def str_eval upt_rec

section \<open>What each operation adds to the request log\<close>

lemma submissions_append: "submissions (a @ b) = submissions a @ submissions b"
  by (simp add: submissions_def)

lemma submissions_reads: "list_all is_read ext \<Longrightarrow> submissions ext = []"
  by (induction ext) (auto simp: submissions_def elim: is_read.elims)

lemma submissions_snoc_create:
  "submissions (log @ [Req_create_records z rs]) = submissions log @ [Req_create_records z rs]"
  by (simp add: submissions_def)

lemma submissions_snoc_delete:
  "submissions (log @ [Req_delete_records z rs]) = submissions log @ [Req_delete_records z rs]"
  by (simp add: submissions_def)

lemma connect_log: "snd (snd (connect rm m log)) = log @ [Req_servers (connect_api_url (m_url m)) (m_api_key m)]"
  by (simp add: connect_def Let_def split: sum.splits list.splits)

lemma connect_client:
  "m_client (fst (snd (connect rm m log))) = Some (connect_api_url (m_url m), m_api_key m)"
  by (simp add: connect_def Let_def split: sum.splits list.splits)

lemma connect_if_needed_log:
  "\<exists>ext. snd (snd (connect_if_needed rm m log)) = log @ ext \<and> list_all is_read ext"
proof (cases "m_connected m")
  case True
  then show ?thesis by (simp add: connect_if_needed_def)
next
  case False
  have "snd (snd (connect_if_needed rm m log)) = snd (snd (connect rm m log))"
    using False by (simp add: connect_if_needed_def split: prod.splits sum.splits)
  then show ?thesis by (simp add: connect_log)
qed

lemma get_zone_log:
  "\<exists>ext. snd (snd (get_zone rm m zid log)) = log @ ext \<and> list_all is_read ext"
proof -
  obtain r m1 log1 where c: "connect_if_needed rm m log = (r, m1, log1)"
    by (cases "connect_if_needed rm m log") auto
  obtain ext where e: "log1 = log @ ext" "list_all is_read ext"
    using connect_if_needed_log [of rm m log] c by auto
  show ?thesis
    using c e by (cases r; cases "m_api_server m1") (auto simp: get_zone_def)
qed


lemma load_records_log:
  "\<exists>ext. snd (load_records rm (scr, log)) = log @ ext \<and> list_all is_read ext"
proof -
  obtain r m1 log1 where g: "get_zone rm (ds_manager scr) (ds_zone_id scr) log = (r, m1, log1)"
    by (cases "get_zone rm (ds_manager scr) (ds_zone_id scr) log") auto
  obtain ext where e: "log1 = log @ ext" "list_all is_read ext"
    using get_zone_log [of rm "ds_manager scr" "ds_zone_id scr" log] g by auto
  show ?thesis
  proof (cases r)
    case (Inl x)
    with g e show ?thesis by (simp add: load_records_def)
  next
    case (Inr z)
    have "snd (load_records rm (scr, log)) = log @ (ext @ [Req_details (zone_name z)])"
      using g e Inr
      by (cases "details_of rm log1 z") (simp_all add: load_records_def Let_def zone_details_def)
    moreover have "list_all is_read (ext @ [Req_details (zone_name z)])"
      using e by simp
    ultimately show ?thesis by blast
  qed
qed

lemma get_zone_submissions: "submissions (snd (snd (get_zone rm m zid log))) = submissions log"
  using get_zone_log [of rm m zid log] by (auto simp: submissions_append submissions_reads)

lemma load_records_submissions: "submissions (snd (load_records rm (scr, log))) = submissions log"
  using load_records_log [of rm scr log] by (auto simp: submissions_append submissions_reads)







section \<open>Failures at the transport boundary\<close>

text \<open>
  With a connected manager, a failing transport call inside \<^verbatim>\<open>connect\<close>,
  \<^verbatim>\<open>get_zones\<close>, \<^verbatim>\<open>create_zone\<close> and \<^verbatim>\<open>delete_zone\<close> comes back as the program's own
  \<open>Exception\<close>, with the cause's text after a fixed prefix. \<^verbatim>\<open>get_zone\<close> returns the
  cause itself.
\<close>

lemma connect_failure_wrapped:
  assumes "servers_of rm log (connect_api_url (m_url m)) (m_api_key m) = Inl e"
  shows "fst (connect rm m log) =
           Inl (Exception (''Failed to connect to '' @ m_name m @ '': '' @ str_exn e))"
  using assms by (simp add: connect_def Let_def)

lemma connect_if_needed_connected:
  "m_connected m \<Longrightarrow> connect_if_needed rm m log = (Inr (), m, log)"
  by (simp add: connect_if_needed_def)

lemma get_zones_failure_wrapped:
  assumes "m_connected m" and "m_api_server m = Some s" and "zones_of rm log s = Inl e"
  shows "fst (get_zones rm m log) = Inl (Exception (''Failed to get zones: '' @ str_exn e))"
  using assms by (simp add: get_zones_def connect_if_needed_connected)

lemma create_zone_failure_wrapped:
  assumes "m_connected m" and "m_api_server m = Some s"
    and "created_zone rm log s name kind
           [soa_rrset name (strftime_Ymd00 (local_today clk))]
           (case nameservers of None \<Rightarrow> [] | Some l \<Rightarrow> l) = Inl e"
  shows "fst (create_zone rm clk m name kind nameservers log) =
           Inl (Exception (''Failed to create zone: '' @ str_exn e))"
  using assms by (simp add: create_zone_def connect_if_needed_connected Let_def)

lemma delete_zone_failure_wrapped:
  assumes "m_connected m" and "m_api_server m = Some s" and "deleted_zone rm log s zid = Inl e"
  shows "fst (delete_zone rm m zid log) = Inl (Exception (''Failed to delete zone: '' @ str_exn e))"
  using assms by (simp add: delete_zone_def connect_if_needed_connected)

lemma get_zone_failure_raw:
  assumes "m_connected m" and "m_api_server m = Some s" and "zone_of rm log s zid = Inl e"
  shows "fst (get_zone rm m zid log) = Inl e"
  using assms by (simp add: get_zone_def connect_if_needed_connected)

text \<open>
  C1. Every gateway operation is claimed to catch a failure of its transport call and
  raise a domain-level error that embeds the cause, \<^verbatim>\<open>get_zone\<close> included. On a
  connected manager whose server refuses the call, \<^verbatim>\<open>get_zone\<close> hands the transport's
  exception to its caller as it is, which is not a domain-level error, while
  \<^verbatim>\<open>get_zones\<close> on the same manager and server raises the wrapped error.
\<close>

theorem get_zone_raises_raw_transport_error:
  "fst (get_zone unreachable connected_manager ''example.com.'' []) =
     Inl (Transport_error ''connection refused'') \<and>
   \<not> is_domain_error (Transport_error ''connection refused'') \<and>
   fst (get_zones unreachable connected_manager []) =
     Inl (Exception ''Failed to get zones: connection refused'')"
  by (simp add: get_zone_def get_zones_def connect_if_needed_def unreachable_def connected_manager_def manager_a_def)

section \<open>Record workflows\<close>

text \<open>
  C2. For every row and every form result, the edit workflow submits one record-set,
  named and typed as the row, holding one record with the new content and the row's
  disabled flag, with the new TTL. The record-sets submitted are those submitted before,
  followed by that one when the zone was fetched and by nothing when fetching the zone
  failed.
\<close>

theorem edit_record_submission:
  "submissions (snd (on_edit_record_result rm (Some r) row (scr, log))) =
     submissions log @
     (case fst (get_zone rm (ds_manager scr) (ds_zone_id scr) log) of
        Inl e \<Rightarrow> []
      | Inr z \<Rightarrow>
          [Req_create_records (zone_name z)
             [\<lparr>rrset_name = row_name row, rrset_rtype = row_type row,
               rrset_records = [(er_content r, row_disabled row)],
               rrset_ttl = Some (er_ttl r)\<rparr>]])"
proof -
  obtain res m1 log1 where g: "get_zone rm (ds_manager scr) (ds_zone_id scr) log = (res, m1, log1)"
    by (cases "get_zone rm (ds_manager scr) (ds_zone_id scr) log") auto
  have s1: "submissions log1 = submissions log"
    using get_zone_submissions [of rm "ds_manager scr" "ds_zone_id scr" log] g by simp
  show ?thesis
  proof (cases res)
    case (Inl e)
    with g s1 show ?thesis by (simp add: on_edit_record_result_def)
  next
    case (Inr z)
    with g s1 show ?thesis
      by (simp add: on_edit_record_result_def create_records_def Let_def
            load_records_submissions submissions_snoc_create split: sum.splits)
  qed
qed

theorem edit_record_submission_witness:
  "submissions (snd (on_edit_record_result reachable
       (Some \<lparr>er_content = ''192.0.2.9'', er_ttl = 60\<rparr>) example_row
       (example_details_screen, []))) =
     [Req_create_records ''example.com.''
        [\<lparr>rrset_name = ''example.com.'', rrset_rtype = ''A'',
          rrset_records = [(''192.0.2.9'', True)], rrset_ttl = Some 60\<rparr>]]"
  using edit_record_submission [of reachable "\<lparr>er_content = ''192.0.2.9'', er_ttl = 60\<rparr>"
      example_row example_details_screen "[]"]
  by (simp add: get_zone_def connect_if_needed_def example_defs submissions_def)

text \<open>
  C3. For every row, the confirmed delete workflow submits, for deletion, one record-set
  named and typed as the row with an empty list of records, whatever content, disabled
  flag and TTL the row has. As for editing, nothing is submitted when fetching the zone
  failed.
\<close>

theorem delete_record_submission:
  "submissions (snd (on_delete_record_result rm True row (scr, log))) =
     submissions log @
     (case fst (get_zone rm (ds_manager scr) (ds_zone_id scr) log) of
        Inl e \<Rightarrow> []
      | Inr z \<Rightarrow>
          [Req_delete_records (zone_name z)
             [\<lparr>rrset_name = row_name row, rrset_rtype = row_type row,
               rrset_records = [], rrset_ttl = None\<rparr>]])"
proof -
  obtain res m1 log1 where g: "get_zone rm (ds_manager scr) (ds_zone_id scr) log = (res, m1, log1)"
    by (cases "get_zone rm (ds_manager scr) (ds_zone_id scr) log") auto
  have s1: "submissions log1 = submissions log"
    using get_zone_submissions [of rm "ds_manager scr" "ds_zone_id scr" log] g by simp
  show ?thesis
  proof (cases res)
    case (Inl e)
    with g s1 show ?thesis by (simp add: on_delete_record_result_def)
  next
    case (Inr z)
    with g s1 show ?thesis
      by (simp add: on_delete_record_result_def delete_records_def Let_def
            load_records_submissions submissions_snoc_delete split: sum.splits)
  qed
qed

theorem delete_record_submission_witness:
  "submissions (snd (on_delete_record_result reachable True example_row
       (example_details_screen, []))) =
     [Req_delete_records ''example.com.''
        [\<lparr>rrset_name = ''example.com.'', rrset_rtype = ''A'',
          rrset_records = [], rrset_ttl = None\<rparr>]]"
  using delete_record_submission [of reachable example_row example_details_screen "[]"]
  by (simp add: get_zone_def connect_if_needed_def example_defs submissions_def)

lemma full_name_cases:
  "full_name name zname =
     (let base = (if name = [] then zname else name @ ''.'' @ zname)
      in if suffix ''.'' base then base else base @ ''.'')"
  by (simp add: full_name_def Let_def endswith_suffix)

lemma full_name_suffix: "suffix ''.'' (full_name name zname)"
  by (simp add: full_name_cases Let_def suffix_def)

lemma full_name_www: "full_name ''www'' ''example.com.'' = ''www.example.com.''"
  by (simp add: full_name_def endswith_def)

lemma full_name_apex: "full_name [] ''example.com.'' = ''example.com.''"
  by (simp add: full_name_def endswith_def)

lemma create_record_submission:
  "submissions (snd (on_create_record_result rm (Some r) (scr, log))) =
     submissions log @
     (case fst (get_zone rm (ds_manager scr) (ds_zone_id scr) log) of
        Inl e \<Rightarrow> []
      | Inr z \<Rightarrow>
          [Req_create_records (zone_name z)
             [\<lparr>rrset_name = full_name (cr_name r) (ds_zone_name scr), rrset_rtype = cr_type r,
               rrset_records = [(cr_content r, False)],
               rrset_ttl = Some (cr_ttl r)\<rparr>]])"
proof -
  obtain res m1 log1 where g: "get_zone rm (ds_manager scr) (ds_zone_id scr) log = (res, m1, log1)"
    by (cases "get_zone rm (ds_manager scr) (ds_zone_id scr) log") auto
  have s1: "submissions log1 = submissions log"
    using get_zone_submissions [of rm "ds_manager scr" "ds_zone_id scr" log] g by simp
  show ?thesis
  proof (cases res)
    case (Inl e)
    with g s1 show ?thesis by (simp add: on_create_record_result_def)
  next
    case (Inr z)
    with g s1 show ?thesis
      by (simp add: on_create_record_result_def create_records_def Let_def
            load_records_submissions submissions_snoc_create split: sum.splits)
  qed
qed

text \<open>
  C4. The fully-qualified name of a new record is the given name, a dot and the zone
  name when the name is not empty, and the zone name when it is; a dot is appended
  exactly when that string does not end with one, so the result always ends with a dot.
  \<^verbatim>\<open>www\<close> in \<^verbatim>\<open>example.com.\<close> gives \<^verbatim>\<open>www.example.com.\<close>, the empty name gives
  \<^verbatim>\<open>example.com.\<close>. The record-set submitted carries that name, with one record that
  is not disabled.
\<close>

theorem create_record_full_name:
  "full_name name zname =
     (let base = (if name = [] then zname else name @ ''.'' @ zname)
      in if suffix ''.'' base then base else base @ ''.'') \<and>
   suffix ''.'' (full_name name zname) \<and>
   full_name ''www'' ''example.com.'' = ''www.example.com.'' \<and>
   full_name [] ''example.com.'' = ''example.com.'' \<and>
   submissions (snd (on_create_record_result rm (Some r) (scr, log))) =
     submissions log @
     (case fst (get_zone rm (ds_manager scr) (ds_zone_id scr) log) of
        Inl e \<Rightarrow> []
      | Inr z \<Rightarrow>
          [Req_create_records (zone_name z)
             [\<lparr>rrset_name = full_name (cr_name r) (ds_zone_name scr), rrset_rtype = cr_type r,
               rrset_records = [(cr_content r, False)],
               rrset_ttl = Some (cr_ttl r)\<rparr>]])"
  using full_name_cases full_name_suffix full_name_www full_name_apex create_record_submission
  by blast

theorem create_record_full_name_witness:
  "submissions (snd (on_create_record_result reachable
       (Some \<lparr>cr_name = ''www'', cr_type = ''A'', cr_content = ''192.0.2.9'', cr_ttl = 3600\<rparr>)
       (example_details_screen, []))) =
     [Req_create_records ''example.com.''
        [\<lparr>rrset_name = ''www.example.com.'', rrset_rtype = ''A'',
          rrset_records = [(''192.0.2.9'', False)], rrset_ttl = Some 3600\<rparr>]]"
  using create_record_full_name [of "''www''" "''example.com.''" reachable
      "\<lparr>cr_name = ''www'', cr_type = ''A'', cr_content = ''192.0.2.9'', cr_ttl = 3600\<rparr>"
      example_details_screen "[]", THEN conjunct2, THEN conjunct2, THEN conjunct2, THEN conjunct2]
  by (simp add: get_zone_def connect_if_needed_def example_defs submissions_def full_name_www)

section \<open>Creating a zone\<close>

text \<open>
  C5, as stated. The serial is claimed to be the current UTC date followed by \<^verbatim>\<open>00\<close>.
  Half an hour after local midnight east of Greenwich the local date is a day ahead of
  the UTC date, and the serial submitted is the local one, not the one claimed.
\<close>

theorem create_zone_serial_is_not_utc_date:
  "snd (snd (create_zone reachable new_year_clock connected_manager ''example.com.'' ''Native'' None [])) =
     [Req_create_zone ''localhost'' ''example.com.'' ''Native''
        [\<lparr>rrset_name = ''example.com.'', rrset_rtype = ''SOA'',
          rrset_records =
            [(''ns1.example.com. hostmaster.example.com. 2024010200 28800 7200 604800 86400'', False)],
          rrset_ttl = Some 86400\<rparr>] []] \<and>
   strftime_Ymd00 (utc_today new_year_clock) = ''2024010100'' \<and>
   snd (snd (create_zone reachable new_year_clock connected_manager ''example.com.'' ''Native'' None [])) \<noteq>
     [Req_create_zone ''localhost'' ''example.com.'' ''Native''
        [soa_rrset ''example.com.'' (strftime_Ymd00 (utc_today new_year_clock))] []]"
  by (simp add: create_zone_def connect_if_needed_def example_defs Let_def soa_rrset_def
        soa_content_def strftime_Ymd00_def pad4_def pad2_def digit_char_def)

text \<open>
  C5, as amended. For every zone name, once the manager is connected, \<^verbatim>\<open>create_zone\<close>
  submits the creation of the zone with one SOA record-set, named as the zone, TTL 86400,
  whose content is
  \<^verbatim>\<open>ns1.<name> hostmaster.<name> <serial> 28800 7200 604800 86400\<close>, the
  serial being the current local date as \<^verbatim>\<open>YYYYMMDD\<close> followed by \<^verbatim>\<open>00\<close>, and with the
  given nameservers, the empty list when none are given.
\<close>

theorem create_zone_default_soa:
  assumes "connect_if_needed rm m log = (Inr (), m1, log1)" and "m_api_server m1 = Some s"
  shows "snd (snd (create_zone rm clk m name kind nameservers log)) =
           log1 @ [Req_create_zone s name kind
                     [\<lparr>rrset_name = name, rrset_rtype = ''SOA'',
                       rrset_records =
                         [(''ns1.'' @ name @ '' hostmaster.'' @ name @ '' '' @
                           strftime_Ymd00 (local_today clk) @ '' 28800 7200 604800 86400'', False)],
                       rrset_ttl = Some 86400\<rparr>]
                     (case nameservers of None \<Rightarrow> [] | Some ns \<Rightarrow> ns)]"
  using assms
  by (simp add: create_zone_def Let_def soa_rrset_def soa_content_def split: sum.splits)

theorem create_zone_default_soa_witness:
  "connect_if_needed reachable manager_a [] =
     (Inr (), connected_manager, [Req_servers ''http://a:8081/api/v1'' ''secret'']) \<and>
   m_api_server connected_manager = Some ''localhost'' \<and>
   snd (snd (create_zone reachable new_year_clock manager_a ''example.com.'' ''Master''
               (Some [''ns1.example.com.'']) [])) =
     [Req_servers ''http://a:8081/api/v1'' ''secret'',
      Req_create_zone ''localhost'' ''example.com.'' ''Master''
        [\<lparr>rrset_name = ''example.com.'', rrset_rtype = ''SOA'',
          rrset_records =
            [(''ns1.example.com. hostmaster.example.com. 2024010200 28800 7200 604800 86400'', False)],
          rrset_ttl = Some 86400\<rparr>]
        [''ns1.example.com.'']]"
proof -
  have h1: "connect_if_needed reachable manager_a [] =
     (Inr (), connected_manager, [Req_servers ''http://a:8081/api/v1'' ''secret''])"
    by (simp add: connect_if_needed_def connect_def connect_api_url_def endswith_def Let_def
          example_defs)
  have h2: "m_api_server connected_manager = Some ''localhost''"
    by (simp add: example_defs)
  have s: "strftime_Ymd00 (local_today new_year_clock) = ''2024010200''"
    by (simp add: example_defs strftime_Ymd00_def pad4_def pad2_def digit_char_def)
  show ?thesis
    using h1 h2 create_zone_default_soa [OF h1 h2, of new_year_clock "''example.com.''" "''Master''"
        "Some [''ns1.example.com.'']"] s
    by simp
qed

section \<open>Loading the zones of all servers\<close>

text \<open>
  The loops of \<^verbatim>\<open>load_zones\<close> do what the outcomes of the remote calls say: the inner
  loop appends the entries of the zones whose documents were read, and ends with the
  first exception.
\<close>

lemma connect_name: "m_name (fst (snd (connect rm m log))) = m_name m"
  by (simp add: connect_def Let_def split: sum.splits list.splits)

lemma connect_if_needed_name: "m_name (fst (snd (connect_if_needed rm m log))) = m_name m"
  using connect_name [of rm m log]
  by (auto simp: connect_if_needed_def split: prod.splits sum.splits)

lemma get_zones_name: "m_name (fst (snd (get_zones rm m log))) = m_name m"
  using connect_if_needed_name [of rm m log]
  by (auto simp: get_zones_def split: prod.splits sum.splits option.splits)

lemma update_keeps_names:
  assumes "m_name m1 = m_name (ms ! i)"
  shows "m_name (ms[i := m1] ! j) = m_name (ms ! j)"
proof (cases "i < length ms")
  case True
  with assms show ?thesis by (cases "j = i") simp_all
next
  case False
  then have "ms[i := m1] = ms" by (simp add: list_update_beyond)
  then show ?thesis by simp
qed

lemma outcome_warnings_names:
  assumes "\<And>j. m_name (ms' ! j) = m_name (ms ! j)"
  shows "outcome_warnings ms' out = outcome_warnings ms out"
  using assms by (cases "outcome_error out") (simp_all add: outcome_warnings_def)

lemma load_zone_list_eq:
  "load_zone_list rm i zones (scr, log) =
     (case read_details rm zones log of
        (rs, log') \<Rightarrow>
          (first_error rs,
           scr\<lparr>zs_all_zones := zs_all_zones scr @ read_entries i zones rs,
                zs_table := zs_table scr @ map (zone_row (zs_managers scr)) (read_entries i zones rs)\<rparr>,
           log'))"
proof (induction zones arbitrary: scr log)
  case Nil
  then show ?case by simp
next
  case (Cons z zones)
  show ?case
  proof (cases "fst (zone_details rm z log)")
    case (Inl e)
    then show ?thesis by (cases "zone_details rm z log") simp
  next
    case (Inr d)
    then show ?thesis
      by (cases "zone_details rm z log") (simp add: Cons.IH split: prod.splits)
  qed
qed

lemma manager_outcome_name:
  "m_name (fst (snd (manager_outcome rm i m log))) = m_name m"
  using get_zones_name [of rm m log]
  by (auto simp: manager_outcome_def split: prod.splits sum.splits)

lemma load_manager_zones_eq:
  "load_manager_zones rm i (scr, log) =
     (case manager_outcome rm i (zs_managers scr ! i) log of
        (out, m1, log1) \<Rightarrow>
          (outcome_error out,
           scr\<lparr>zs_managers := (zs_managers scr)[i := m1],
                zs_all_zones := zs_all_zones scr @ outcome_zones out,
                zs_table := zs_table scr @
                  map (zone_row ((zs_managers scr)[i := m1])) (outcome_zones out)\<rparr>,
           log1))"
proof -
  obtain r m1 log1 where g: "get_zones rm (zs_managers scr ! i) log = (r, m1, log1)"
    by (cases "get_zones rm (zs_managers scr ! i) log") auto
  show ?thesis
  proof (cases r)
    case (Inl e)
    with g show ?thesis by (simp add: load_manager_zones_def manager_outcome_def)
  next
    case (Inr zones)
    with g show ?thesis
      by (simp add: load_manager_zones_def manager_outcome_def load_zone_list_eq split: prod.splits)
  qed
qed

lemma gateway_outcomes_order: "map fst (gateway_outcomes rm idxs ms log) = idxs"
proof (induction idxs arbitrary: ms log)
  case Nil
  then show ?case by simp
next
  case (Cons i rest)
  obtain out m1 log1 where o: "manager_outcome rm i (ms ! i) log = (out, m1, log1)"
    by (cases "manager_outcome rm i (ms ! i) log") auto
  have "fst out = i"
    using o by (auto simp: manager_outcome_def split: prod.splits sum.splits)
  then show ?case using o Cons.IH by simp
qed

lemma load_managers_length:
  "length (zs_managers (fst (load_managers rm idxs (scr, log)))) = length (zs_managers scr)"
proof (induction idxs arbitrary: scr log)
  case Nil
  then show ?case by simp
next
  case (Cons i rest)
  obtain out m1 log1 where o: "manager_outcome rm i (zs_managers scr ! i) log = (out, m1, log1)"
    by (cases "manager_outcome rm i (zs_managers scr ! i) log") auto
  show ?case
    using o Cons.IH by (cases "outcome_error out") (simp_all add: load_manager_zones_eq)
qed

lemma load_managers_all_zones:
  "zs_all_zones (fst (load_managers rm idxs (scr, log))) =
     zs_all_zones scr @ concat (map outcome_zones (gateway_outcomes rm idxs (zs_managers scr) log))"
proof (induction idxs arbitrary: scr log)
  case Nil
  then show ?case by simp
next
  case (Cons i rest)
  obtain out m1 log1 where o: "manager_outcome rm i (zs_managers scr ! i) log = (out, m1, log1)"
    by (cases "manager_outcome rm i (zs_managers scr ! i) log") auto
  show ?case
    using o Cons.IH by (cases "outcome_error out") (simp_all add: load_manager_zones_eq)
qed

lemma load_managers_notices:
  "zs_notices (fst (load_managers rm idxs (scr, log))) =
     zs_notices scr @
     concat (map (outcome_warnings (zs_managers scr)) (gateway_outcomes rm idxs (zs_managers scr) log))"
proof (induction idxs arbitrary: scr log)
  case Nil
  then show ?case by simp
next
  case (Cons i rest)
  let ?ms = "zs_managers scr"
  obtain out m1 log1 where o: "manager_outcome rm i (?ms ! i) log = (out, m1, log1)"
    by (cases "manager_outcome rm i (?ms ! i) log") auto
  have f: "fst out = i"
    using o by (auto simp: manager_outcome_def split: prod.splits sum.splits)
  have n: "m_name m1 = m_name (?ms ! i)"
    using manager_outcome_name [of rm i "?ms ! i" log] o by simp
  have k: "\<And>j. m_name (?ms[i := m1] ! j) = m_name (?ms ! j)"
    by (rule update_keeps_names [OF n])
  have w: "outcome_warnings (?ms[i := m1]) = outcome_warnings ?ms"
    by (rule ext, rule outcome_warnings_names, rule k)
  have h: "outcome_warnings ?ms out =
             (case outcome_error out of
                None \<Rightarrow> []
              | Some e \<Rightarrow>
                  [(''Error loading zones from '' @ m_name (?ms ! i) @ '': '' @ str_exn e, Error)])"
    using f by (simp add: outcome_warnings_def split: option.splits)
  show ?case
  proof (cases "outcome_error out")
    case None
    then show ?thesis
      using o w h Cons.IH by (simp add: load_manager_zones_eq)
  next
    case (Some e)
    then show ?thesis
      using o w h k [of i] Cons.IH by (simp add: load_manager_zones_eq)
  qed
qed

lemma load_zones_unfold:
  "fst (load_zones rm (scr, log)) =
     (let scr1 = fst (load_managers rm [0..<length (zs_managers scr)]
                        (scr\<lparr>zs_table := [], zs_all_zones := []\<rparr>, log))
      in scr1\<lparr>zs_notices := zs_notices scr1 @
              [(''Loaded '' @ str_nat (length (zs_all_zones scr1)) @ '' zones from '' @
                str_nat (length (zs_managers scr1)) @ '' server(s)'', Information)]\<rparr>)"
  by (simp add: load_zones_def Let_def split: prod.splits)

lemma read_entries_names:
  "prefix (map zd_name (read_entries i zones rs)) (map zone_name zones) \<and>
   map zd_id (read_entries i zones rs) = map zd_name (read_entries i zones rs) \<and>
   (\<forall>zd \<in> set (read_entries i zones rs). zd_manager zd = i)"
  by (induction i zones rs rule: read_entries.induct) (simp_all add: make_zone_data_def)

lemma read_details_complete:
  "first_error (fst (read_details rm zones log)) = None \<Longrightarrow>
   map zd_name (read_entries i zones (fst (read_details rm zones log))) = map zone_name zones"
proof (induction zones arbitrary: log)
  case Nil
  then show ?case by simp
next
  case (Cons z zones)
  show ?case
  proof (cases "details_of rm log z")
    case (Inl e)
    with Cons.prems show ?thesis by (simp add: zone_details_def)
  next
    case (Inr d)
    with Cons.prems Cons.IH [of "log @ [Req_details (zone_name z)]"] show ?thesis
      by (simp add: zone_details_def make_zone_data_def split: prod.splits)
  qed
qed

lemma manager_outcome_zones:
  assumes "out = fst (manager_outcome rm i m log)"
  shows "prefix (map zd_name (outcome_zones out)) (map zone_name (listed_zones out)) \<and>
         map zd_id (outcome_zones out) = map zd_name (outcome_zones out) \<and>
         (\<forall>zd \<in> set (outcome_zones out). zd_manager zd = fst out) \<and>
         (outcome_error out = None \<longrightarrow>
            map zd_name (outcome_zones out) = map zone_name (listed_zones out))"
proof -
  obtain r m1 log1 where g: "get_zones rm m log = (r, m1, log1)"
    by (cases "get_zones rm m log") auto
  show ?thesis
  proof (cases r)
    case (Inl e)
    with g assms show ?thesis by (simp add: manager_outcome_def)
  next
    case (Inr zones)
    then have o: "out = (i, Inr zones, fst (read_details rm zones log1))"
      using g assms by (simp add: manager_outcome_def split: prod.splits)
    show ?thesis
      using read_entries_names [of i zones "fst (read_details rm zones log1)"]
        read_details_complete [of rm zones log1 i]
      by (simp add: o)
  qed
qed

lemma gateway_outcomes_member:
  "out \<in> set (gateway_outcomes rm idxs ms log) \<Longrightarrow>
   \<exists>i m lg. out = fst (manager_outcome rm i m lg)"
proof (induction idxs arbitrary: ms log)
  case Nil
  then show ?case by simp
next
  case (Cons i rest)
  obtain o1 m1 log1 where o: "manager_outcome rm i (ms ! i) log = (o1, m1, log1)"
    by (cases "manager_outcome rm i (ms ! i) log") auto
  from Cons.prems o have "out = o1 \<or> out \<in> set (gateway_outcomes rm rest (ms[i := m1]) log1)"
    by simp
  then show ?case
  proof
    assume "out = o1"
    then have "out = fst (manager_outcome rm i (ms ! i) log)" using o by simp
    then show ?thesis by blast
  next
    assume "out \<in> set (gateway_outcomes rm rest (ms[i := m1]) log1)"
    then show ?thesis by (rule Cons.IH)
  qed
qed

lemma gateway_outcomes_zones:
  assumes "out \<in> set (gateway_outcomes rm idxs ms log)"
  shows "prefix (map zd_name (outcome_zones out)) (map zone_name (listed_zones out)) \<and>
         map zd_id (outcome_zones out) = map zd_name (outcome_zones out) \<and>
         (\<forall>zd \<in> set (outcome_zones out). zd_manager zd = fst out) \<and>
         (outcome_error out = None \<longrightarrow>
            map zd_name (outcome_zones out) = map zone_name (listed_zones out))"
  using gateway_outcomes_member [OF assms] manager_outcome_zones by blast

text \<open>
  C6, as stated. The loaded collection is claimed to hold exactly the zones of the
  gateways that succeeded. Server A lists two zones and the read of the second zone's
  document times out: the handler records the warning for A, and the entry appended for
  the first zone stays. The collection is neither empty, as the zones of the gateways
  without a warning would be, nor both zones of A.
\<close>

theorem load_zones_keeps_zones_of_a_failed_gateway:
  "zs_all_zones (fst (load_zones second_zone_unreadable (one_server_screen, []))) =
     [make_zone_data 0 example_zone example_details] \<and>
   zs_notices (fst (load_zones second_zone_unreadable (one_server_screen, []))) =
     [(''Error loading zones from A: timed out'', Error),
      (''Loaded 1 zones from 1 server(s)'', Information)] \<and>
   zs_all_zones (fst (load_zones second_zone_unreadable (one_server_screen, []))) \<noteq> [] \<and>
   zs_all_zones (fst (load_zones second_zone_unreadable (one_server_screen, []))) \<noteq>
     [make_zone_data 0 example_zone example_details,
      make_zone_data 0 \<lparr>zone_name = ''example.org.''\<rparr> example_details]"
  by (simp add: screen_eval gateway_defs example_defs)

text \<open>
  C6, as amended. \<^verbatim>\<open>load_zones\<close> asks every manager, one after the other in the order
  of the list, for its zones and then for the document of each zone. The loaded
  collection holds, manager after manager, the zones read before that manager's first
  failure: all its zones, in the order listed, when nothing failed, none when the listing
  itself failed, and the zones before the failed read otherwise. A manager with a failure
  adds one error notice naming that server and the cause, a manager without one adds none,
  and the managers after it are still asked. The result is always a screen: no exception
  leaves \<^verbatim>\<open>load_zones\<close>.
\<close>

theorem load_zones_partial_failure:
  "(let outs = gateway_outcomes rm [0..<length (zs_managers scr)] (zs_managers scr) log;
        scr' = fst (load_zones rm (scr, log))
    in map fst outs = [0..<length (zs_managers scr)] \<and>
       zs_all_zones scr' = concat (map outcome_zones outs) \<and>
       zs_notices scr' =
         zs_notices scr @ concat (map (outcome_warnings (zs_managers scr)) outs) @
         [(''Loaded '' @ str_nat (length (zs_all_zones scr')) @ '' zones from '' @
           str_nat (length (zs_managers scr)) @ '' server(s)'', Information)] \<and>
       (\<forall>out \<in> set outs.
          prefix (map zd_name (outcome_zones out)) (map zone_name (listed_zones out)) \<and>
          (outcome_error out = None \<longrightarrow>
             map zd_name (outcome_zones out) = map zone_name (listed_zones out) \<and>
             outcome_warnings (zs_managers scr) out = []) \<and>
          (\<forall>e. outcome_error out = Some e \<longrightarrow>
             outcome_warnings (zs_managers scr) out =
               [(''Error loading zones from '' @ m_name (zs_managers scr ! fst out) @ '': '' @
                 str_exn e, Error)]) \<and>
          (\<forall>e. fst (snd out) = Inl e \<longrightarrow> outcome_zones out = [] \<and> outcome_error out = Some e)))"
proof -
  let ?outs = "gateway_outcomes rm [0..<length (zs_managers scr)] (zs_managers scr) log"
  have shape: "\<forall>out \<in> set ?outs.
          prefix (map zd_name (outcome_zones out)) (map zone_name (listed_zones out)) \<and>
          (outcome_error out = None \<longrightarrow>
             map zd_name (outcome_zones out) = map zone_name (listed_zones out) \<and>
             outcome_warnings (zs_managers scr) out = []) \<and>
          (\<forall>e. outcome_error out = Some e \<longrightarrow>
             outcome_warnings (zs_managers scr) out =
               [(''Error loading zones from '' @ m_name (zs_managers scr ! fst out) @ '': '' @
                 str_exn e, Error)]) \<and>
          (\<forall>e. fst (snd out) = Inl e \<longrightarrow> outcome_zones out = [] \<and> outcome_error out = Some e)"
  proof
    fix out assume m: "out \<in> set ?outs"
    obtain i r rs where o: "out = (i, r, rs)" by (cases out)
    have a: "\<forall>e. fst (snd out) = Inl e \<longrightarrow> outcome_zones out = [] \<and> outcome_error out = Some e"
      using o by simp
    show "prefix (map zd_name (outcome_zones out)) (map zone_name (listed_zones out)) \<and>
          (outcome_error out = None \<longrightarrow>
             map zd_name (outcome_zones out) = map zone_name (listed_zones out) \<and>
             outcome_warnings (zs_managers scr) out = []) \<and>
          (\<forall>e. outcome_error out = Some e \<longrightarrow>
             outcome_warnings (zs_managers scr) out =
               [(''Error loading zones from '' @ m_name (zs_managers scr ! fst out) @ '': '' @
                 str_exn e, Error)]) \<and>
          (\<forall>e. fst (snd out) = Inl e \<longrightarrow> outcome_zones out = [] \<and> outcome_error out = Some e)"
      using gateway_outcomes_zones [OF m] a by (simp add: outcome_warnings_def)
  qed
  show ?thesis
    using shape
    by (simp add: Let_def load_zones_unfold gateway_outcomes_order load_managers_all_zones
          load_managers_notices load_managers_length)
qed

lemma outs_only_a:
  "gateway_outcomes only_a_reachable [0..<length (zs_managers two_server_screen)]
     (zs_managers two_server_screen) [] =
   [(0, Inr [example_zone], [Inr example_details]),
    (1, Inl (Exception ''Failed to connect to B: connection refused''), [])]"
  by (simp add: manager_outcome_def gateway_defs upt_rec only_a_reachable_def reachable_def
        two_server_screen_def manager_a_def manager_b_def)

theorem load_zones_partial_failure_witness:
  "gateway_outcomes only_a_reachable [0..<length (zs_managers two_server_screen)]
     (zs_managers two_server_screen) [] =
   [(0, Inr [example_zone], [Inr example_details]),
    (1, Inl (Exception ''Failed to connect to B: connection refused''), [])] \<and>
   zs_all_zones (fst (load_zones only_a_reachable (two_server_screen, []))) =
     [make_zone_data 0 example_zone example_details] \<and>
   zs_notices (fst (load_zones only_a_reachable (two_server_screen, []))) =
     [(''Error loading zones from B: Failed to connect to B: connection refused'', Error),
      (''Loaded 1 zones from 2 server(s)'', Information)] \<and>
   map zd_name (outcome_zones (0, Inr [example_zone], [Inr example_details])) =
     map zone_name [example_zone] \<and>
   outcome_zones (1, Inl (Exception ''Failed to connect to B: connection refused''), []) = []"
proof -
  have m: "zs_managers two_server_screen = [manager_a, manager_b]" "zs_notices two_server_screen = []"
    by (simp_all add: two_server_screen_def)
  have n: "m_name manager_b = ''B''" by (simp add: manager_b_def)
  note t = load_zones_partial_failure [of only_a_reachable two_server_screen "[]",
      unfolded Let_def outs_only_a]
  have z: "zs_all_zones (fst (load_zones only_a_reachable (two_server_screen, []))) =
     [make_zone_data 0 example_zone example_details]"
    using t by simp
  have w: "zs_notices (fst (load_zones only_a_reachable (two_server_screen, []))) =
     [(''Error loading zones from B: Failed to connect to B: connection refused'', Error),
      (''Loaded 1 zones from 2 server(s)'', Information)]"
    using t by (simp add: z m n str_eval outcome_warnings_def)
  have e0: "outcome_error (0, Inr [example_zone], [Inr example_details]) = None"
    by simp
  have e1: "fst (snd (1::nat, Inl (Exception ''Failed to connect to B: connection refused'') :: exn + zone list,
                      [] :: (exn + details) list)) =
            Inl (Exception ''Failed to connect to B: connection refused'')"
    by simp
  from t e0 have c0: "map zd_name (outcome_zones (0, Inr [example_zone], [Inr example_details])) =
      map zone_name (listed_zones (0, Inr [example_zone], [Inr example_details]))"
    by fastforce
  from t e1 have c1: "outcome_zones (1, Inl (Exception ''Failed to connect to B: connection refused''), []) = []"
    by fastforce
  from outs_only_a z w c0 c1 show ?thesis by simp
qed

section \<open>Filtering the zones\<close>

lemma filter_zone_rows_empty: "filter_zone_rows ms [] zds = map (zone_row ms) zds"
  by (induction zds) (simp_all add: zone_matches_def contains_empty)

text \<open>
  C7. Filtering with the empty search term shows every loaded zone, in the order of the
  loaded collection; filtering with any term changes the table only and leaves the
  loaded collection and the managers as they were.
\<close>

theorem filter_zones_empty_term:
  "zs_all_zones (filter_zones search_term scr) = zs_all_zones scr \<and>
   zs_managers (filter_zones search_term scr) = zs_managers scr \<and>
   zs_table (filter_zones [] scr) = map (zone_row (zs_managers scr)) (zs_all_zones scr)"
  by (simp add: filter_zones_def filter_zone_rows_empty lower_empty)

theorem filter_zones_empty_term_witness:
  "zs_table (filter_zones [] loaded_screen) =
     [[''A'', ''a'', ''example.com.'', ''Native'', ''7'', ''1'', ''N/A'']] \<and>
   zs_all_zones (filter_zones ''nomatch'' loaded_screen) =
     [make_zone_data 0 example_zone example_details]"
  using filter_zones_empty_term [of "''nomatch''" loaded_screen]
  by (simp add: loaded_screen_def zone_row_def make_zone_data_def str_eval example_defs)

section \<open>The API endpoint\<close>

lemma connect_api_url_cases:
  "connect_api_url url =
     (if suffix ''/api/v1'' url then url
      else if suffix ''/'' url then url @ ''api/v1'' else url @ ''/api/v1'')"
  by (simp add: connect_api_url_def endswith_suffix)

lemma connect_api_url_suffix: "suffix ''/api/v1'' (connect_api_url url)"
proof (cases "suffix ''/api/v1'' url")
  case True
  then show ?thesis by (simp add: connect_api_url_cases)
next
  case False
  have a: "suffix ''/api/v1'' (url @ ''/api/v1'')" by (rule suffix_appendI) simp
  show ?thesis
  proof (cases "suffix ''/'' url")
    case True
    then obtain p where "url = p @ ''/''" by (auto simp: suffix_def)
    then have "url @ ''api/v1'' = p @ ''/api/v1''" by simp
    then have "suffix ''/api/v1'' (url @ ''api/v1'')" by (simp add: suffix_def)
    with True False show ?thesis by (simp add: connect_api_url_cases)
  next
    case F2: False
    with False a show ?thesis by (simp add: connect_api_url_cases)
  qed
qed

text \<open>
  C8. \<^verbatim>\<open>connect\<close> builds its client for, and sends its request to, the base URL
  normalised as follows: a URL that ends with the API path \<^verbatim>\<open>/api/v1\<close> is left as it
  is; otherwise \<^verbatim>\<open>api/v1\<close> is appended, after a slash exactly when the URL does not end
  with a slash. The normalised URL always ends with \<^verbatim>\<open>/api/v1\<close>.
\<close>

theorem connect_normalizes_base_url:
  "m_client (fst (snd (connect rm m log))) = Some (connect_api_url (m_url m), m_api_key m) \<and>
   snd (snd (connect rm m log)) = log @ [Req_servers (connect_api_url (m_url m)) (m_api_key m)] \<and>
   connect_api_url (m_url m) =
     (if suffix ''/api/v1'' (m_url m) then m_url m
      else if suffix ''/'' (m_url m) then m_url m @ ''api/v1'' else m_url m @ ''/api/v1'') \<and>
   suffix ''/api/v1'' (connect_api_url (m_url m))"
  using connect_log connect_client connect_api_url_cases connect_api_url_suffix by blast

theorem connect_normalizes_base_url_witness:
  "snd (snd (connect reachable manager_b [])) = [Req_servers ''http://b:8081/api/v1'' ''secret''] \<and>
   snd (snd (connect reachable manager_a [])) = [Req_servers ''http://a:8081/api/v1'' ''secret''] \<and>
   snd (snd (connect reachable (manager_a\<lparr>m_url := ''http://a:8081/api/v1''\<rparr>) [])) =
     [Req_servers ''http://a:8081/api/v1'' ''secret'']"
  using connect_normalizes_base_url [of reachable manager_b "[]", THEN conjunct2, THEN conjunct1]
    connect_normalizes_base_url [of reachable manager_a "[]", THEN conjunct2, THEN conjunct1]
    connect_normalizes_base_url [of reachable "manager_a\<lparr>m_url := ''http://a:8081/api/v1''\<rparr>" "[]",
      THEN conjunct2, THEN conjunct1]
  by (simp add: connect_api_url_def endswith_def manager_a_def manager_b_def)

section \<open>Record forms\<close>

lemma create_modal_bad_ttl:
  assumes "py_int (cf_ttl f) = None"
  shows "CreateRecordModal_on_button_pressed ''create-btn'' f = Rejected ''Name and content are required'' \<or>
         CreateRecordModal_on_button_pressed ''create-btn'' f = Rejected ''TTL must be a number''"
  using assms by (simp add: CreateRecordModal_on_button_pressed_def Let_def py_int_strip)

lemma edit_modal_bad_ttl:
  assumes "py_int (ef_ttl f) = None"
  shows "EditRecordModal_on_button_pressed ''save-btn'' f = Rejected ''Content is required'' \<or>
         EditRecordModal_on_button_pressed ''save-btn'' f = Rejected ''TTL must be a number''"
  using assms by (simp add: EditRecordModal_on_button_pressed_def Let_def py_int_strip)

lemma create_modal_result_ttl:
  "CreateRecordModal_on_button_pressed b f = Dismissed (Some r) \<Longrightarrow> py_int (cf_ttl f) = Some (cr_ttl r)"
  by (auto simp: CreateRecordModal_on_button_pressed_def Let_def py_int_strip split: if_splits option.splits)

lemma edit_modal_result_ttl:
  "EditRecordModal_on_button_pressed b f = Dismissed (Some r) \<Longrightarrow> py_int (ef_ttl f) = Some (er_ttl r)"
  by (auto simp: EditRecordModal_on_button_pressed_def Let_def py_int_strip split: if_splits option.splits)

lemma action_create_rejected:
  assumes "CreateRecordModal_on_button_pressed b f = Rejected msg"
  shows "action_create_record rm b f (scr, log) = (scr\<lparr>ds_notices := ds_notices scr @ [(msg, Error)]\<rparr>, log)"
  using assms by (simp add: action_create_record_def)

lemma action_edit_rejected:
  assumes "EditRecordModal_on_button_pressed b f = Rejected msg"
  shows "action_edit_record rm k b f (scr, log) =
           (if k < 0 then Inr (scr\<lparr>ds_notices := ds_notices scr @ [(''Please select a record to edit'', Warning)]\<rparr>, log)
            else if nat k < length (ds_all_records scr)
            then Inr (scr\<lparr>ds_notices := ds_notices scr @ [(msg, Error)]\<rparr>, log)
            else Inl (Index_error ''list index out of range''))"
  using assms by (simp add: action_edit_record_def Let_def)

text \<open>
  C9. When the TTL field of the create form, or of the edit form, does not parse as an
  integer, submitting the form is rejected with an error notice; the screen's workflow
  then leaves the request log as it was, so no remote call is made; and no button of
  the form produces a form result.
\<close>

theorem record_form_rejects_bad_ttl:
  assumes "py_int (cf_ttl cf) = None" and "py_int (ef_ttl ef) = None"
  shows "(\<exists>msg. CreateRecordModal_on_button_pressed ''create-btn'' cf = Rejected msg \<and>
            action_create_record rm ''create-btn'' cf (scr, log) =
              (scr\<lparr>ds_notices := ds_notices scr @ [(msg, Error)]\<rparr>, log)) \<and>
         (\<exists>msg. EditRecordModal_on_button_pressed ''save-btn'' ef = Rejected msg \<and>
            action_edit_record rm k ''save-btn'' ef (scr, log) =
              (if k < 0
               then Inr (scr\<lparr>ds_notices := ds_notices scr @
                           [(''Please select a record to edit'', Warning)]\<rparr>, log)
               else if nat k < length (ds_all_records scr)
               then Inr (scr\<lparr>ds_notices := ds_notices scr @ [(msg, Error)]\<rparr>, log)
               else Inl (Index_error ''list index out of range''))) \<and>
         (\<forall>b r. CreateRecordModal_on_button_pressed b cf \<noteq> Dismissed (Some r)) \<and>
         (\<forall>b r. EditRecordModal_on_button_pressed b ef \<noteq> Dismissed (Some r))"
proof (intro conjI allI)
  from create_modal_bad_ttl [OF assms(1)] obtain msg where
    m: "CreateRecordModal_on_button_pressed ''create-btn'' cf = Rejected msg" by blast
  with action_create_rejected [OF m]
  show "\<exists>msg. CreateRecordModal_on_button_pressed ''create-btn'' cf = Rejected msg \<and>
            action_create_record rm ''create-btn'' cf (scr, log) =
              (scr\<lparr>ds_notices := ds_notices scr @ [(msg, Error)]\<rparr>, log)" by blast
next
  from edit_modal_bad_ttl [OF assms(2)] obtain msg where
    m: "EditRecordModal_on_button_pressed ''save-btn'' ef = Rejected msg" by blast
  with action_edit_rejected [OF m]
  show "\<exists>msg. EditRecordModal_on_button_pressed ''save-btn'' ef = Rejected msg \<and>
            action_edit_record rm k ''save-btn'' ef (scr, log) =
              (if k < 0
               then Inr (scr\<lparr>ds_notices := ds_notices scr @
                           [(''Please select a record to edit'', Warning)]\<rparr>, log)
               else if nat k < length (ds_all_records scr)
               then Inr (scr\<lparr>ds_notices := ds_notices scr @ [(msg, Error)]\<rparr>, log)
               else Inl (Index_error ''list index out of range''))" by blast
next
  fix b r
  show "CreateRecordModal_on_button_pressed b cf \<noteq> Dismissed (Some r)"
    using create_modal_result_ttl [of b cf r] assms(1) by auto
next
  fix b r
  show "EditRecordModal_on_button_pressed b ef \<noteq> Dismissed (Some r)"
    using edit_modal_result_ttl [of b ef r] assms(2) by auto
qed

theorem record_form_rejects_bad_ttl_witness:
  "py_int (cf_ttl abc_create_form) = None \<and>
   py_int (ef_ttl abc_edit_form) = None \<and>
   CreateRecordModal_on_button_pressed ''create-btn'' abc_create_form = Rejected ''TTL must be a number'' \<and>
   EditRecordModal_on_button_pressed ''save-btn'' abc_edit_form = Rejected ''TTL must be a number'' \<and>
   action_create_record reachable ''create-btn'' abc_create_form (example_details_screen, []) =
     (example_details_screen\<lparr>ds_notices := [(''TTL must be a number'', Error)]\<rparr>, []) \<and>
   action_edit_record reachable 0 ''save-btn'' abc_edit_form (example_details_screen, []) =
     Inr (example_details_screen\<lparr>ds_notices := [(''TTL must be a number'', Error)]\<rparr>, [])"
proof -
  have h1: "py_int (cf_ttl abc_create_form) = None"
    by (simp add: abc_create_form_def py_int_abc)
  have h2: "py_int (ef_ttl abc_edit_form) = None"
    by (simp add: abc_edit_form_def py_int_abc)
  have c: "CreateRecordModal_on_button_pressed ''create-btn'' abc_create_form = Rejected ''TTL must be a number''"
    by (simp add: CreateRecordModal_on_button_pressed_def abc_create_form_def strip_plain py_int_abc)
  have e: "EditRecordModal_on_button_pressed ''save-btn'' abc_edit_form = Rejected ''TTL must be a number''"
    by (simp add: EditRecordModal_on_button_pressed_def abc_edit_form_def strip_plain py_int_abc)
  have n: "ds_notices example_details_screen = []" "length (ds_all_records example_details_screen) = 1"
    by (simp_all add: example_details_screen_def ZoneDetailsScreen_init_def)
  show ?thesis
    using record_form_rejects_bad_ttl [OF h1 h2, of reachable example_details_screen "[]" 0] h1 h2 c e n
    by auto
qed

section \<open>Zone identifiers\<close>











end
